theory Spec2Isabelle
  imports Main "HOL-Library.Multiset" "HOL-Library.AList"
begin

section \<open>Strings\<close>

text \<open>
  JavaScript strings are sequences of code units; they are modelled as \<open>string\<close>
  (a \<open>char list\<close>). The functions below only classify the ASCII letters, the digits,
  \<open>_\<close>, \<open>=\<close> and \<open>-\<close>; every other code unit is opaque to them.
\<close>

definition isDigit :: "char \<Rightarrow> bool" where
  \<comment> \<open>the regular-expression class \<open>[0-9]\<close>\<close>
  "isDigit c = (48 \<le> (of_char c :: nat) \<and> (of_char c :: nat) \<le> 57)"

definition isAlnum :: "char \<Rightarrow> bool" where
  \<comment> \<open>the regular-expression class \<open>[a-zA-Z0-9]\<close>\<close>
  "isAlnum c = (let n = (of_char c :: nat) in
     (97 \<le> n \<and> n \<le> 122) \<or> (65 \<le> n \<and> n \<le> 90) \<or> (48 \<le> n \<and> n \<le> 57))"

definition isSpace :: "char \<Rightarrow> bool" where
  \<comment> \<open>the white space that \<open>trim\<close> removes, among the code units below 256\<close>
  "isSpace c = ((of_char c :: nat) \<in> {9, 10, 11, 12, 13, 32, 160})"

section \<open>Identifier sanitization (ScriptBuilder.functionNameFromScriptName)\<close>

text \<open>
  The source is a chain of four \<open>replace\<close> calls followed by a default:
  \<^verbatim>\<open>
  return scriptName
      .replace(/[^a-zA-Z0-9]/g, '_')
      .replace(/^[0-9]/, '_$&')
      .replace(/_+/g, '_')
      .replace(/^_|_$/g, '') || 'mainFunction';
  \<close>
  Each call is one function here, in the order of the source.
\<close>

definition replaceNonAlnum :: "string \<Rightarrow> string" where
  \<comment> \<open>\<open>.replace(/[^a-zA-Z0-9]/g, '_')\<close>\<close>
  "replaceNonAlnum s = map (\<lambda>c. if isAlnum c then c else CHR ''_'') s"

fun escapeLeadingDigit :: "string \<Rightarrow> string" where
  \<comment> \<open>\<open>.replace(/^[0-9]/, '_$&')\<close>: an underscore goes in front of a leading digit\<close>
  "escapeLeadingDigit [] = []"
| "escapeLeadingDigit (c # cs) = (if isDigit c then CHR ''_'' # c # cs else c # cs)"

fun collapseUnderscores :: "string \<Rightarrow> string" where
  \<comment> \<open>\<open>.replace(/_+/g, '_')\<close>: an underscore followed by another one is dropped, so
      every maximal run of underscores becomes a single underscore\<close>
  "collapseUnderscores [] = []"
| "collapseUnderscores [c] = [c]"
| "collapseUnderscores (c # d # cs) =
     (if c = CHR ''_'' \<and> d = CHR ''_'' then collapseUnderscores (d # cs)
      else c # collapseUnderscores (d # cs))"

fun stripLeadingUnderscore :: "string \<Rightarrow> string" where
  \<comment> \<open>the alternative \<open>^_\<close> of \<open>.replace(/^_|_$/g, '')\<close>\<close>
  "stripLeadingUnderscore [] = []"
| "stripLeadingUnderscore (c # cs) = (if c = CHR ''_'' then cs else c # cs)"

definition stripTrailingUnderscore :: "string \<Rightarrow> string" where
  \<comment> \<open>the alternative \<open>_$\<close>, matched in what the first alternative left\<close>
  "stripTrailingUnderscore s = (if s \<noteq> [] \<and> last s = CHR ''_'' then butlast s else s)"

definition functionNameFromScriptName :: "string \<Rightarrow> string" where
  "functionNameFromScriptName scriptName =
     (let r = stripTrailingUnderscore (stripLeadingUnderscore
                (collapseUnderscores (escapeLeadingDigit (replaceNonAlnum scriptName))))
      in if r = [] then ''mainFunction'' else r)"

fun noDoubleUnderscore :: "string \<Rightarrow> bool" where
  \<comment> \<open>no two underscores in a row\<close>
  "noDoubleUnderscore [] = True"
| "noDoubleUnderscore [c] = True"
| "noDoubleUnderscore (c # d # cs) =
     (\<not> (c = CHR ''_'' \<and> d = CHR ''_'') \<and> noDoubleUnderscore (d # cs))"

section \<open>Advanced selector builder of the editor (app.js, updateSelectorPreview)\<close>

text \<open>
  A condition row of the editor holds two \<open>select\<close> elements and a text input. The
  option values of the selects are the constructors below (\<open>class\<close>, \<open>id\<close>, \<open>data\<close>,
  \<open>text\<close>, \<open>tag\<close>, \<open>attribute\<close>; \<open>contains\<close>, \<open>equals\<close>, \<open>starts-with\<close>, \<open>ends-with\<close>,
  \<open>exists\<close>, \<open>not-exists\<close>).
\<close>

datatype attributeKind = Class | Id | Data | Text | Tag | Attribute

datatype conditionType = Contains | Equals | StartsWith | EndsWith | Exists | NotExists

record conditionRow =
  attribute :: attributeKind
  condition :: conditionType
  rowValue :: string

definition startsWith :: "string \<Rightarrow> string \<Rightarrow> bool" where
  \<comment> \<open>\<open>s.startsWith(p)\<close>\<close>
  "startsWith s p = (take (length p) s = p)"

fun jsSplit :: "char \<Rightarrow> string \<Rightarrow> string list" where
  \<comment> \<open>\<open>s.split(sep)\<close> for a one-character separator: never the empty array\<close>
  "jsSplit sep [] = [[]]"
| "jsSplit sep (c # cs) =
     (if c = sep then [] # jsSplit sep cs
      else (case jsSplit sep cs of [] \<Rightarrow> [[c]] | p # ps \<Rightarrow> (c # p) # ps))"

definition part0 :: "string list \<Rightarrow> string" where
  \<comment> \<open>\<open>parts[0]\<close>\<close>
  "part0 parts = (case parts of [] \<Rightarrow> [] | p # _ \<Rightarrow> p)"

definition part1 :: "string list \<Rightarrow> string" where
  \<comment> \<open>\<open>parts[1] || ''\<close>: the empty string when there is no second element\<close>
  "part1 parts = (case parts of _ # v # _ \<Rightarrow> v | _ \<Rightarrow> [])"

definition toLowerChar :: "char \<Rightarrow> char" where
  "toLowerChar c =
     (case map_of (zip ''ABCDEFGHIJKLMNOPQRSTUVWXYZ'' ''abcdefghijklmnopqrstuvwxyz'') c of
        None \<Rightarrow> c
      | Some d \<Rightarrow> d)"

definition toLowerCase :: "string \<Rightarrow> string" where
  \<comment> \<open>\<open>s.toLowerCase()\<close> on ASCII text\<close>
  "toLowerCase s = map toLowerChar s"

definition attributeSelector :: "conditionType \<Rightarrow> string \<Rightarrow> string \<Rightarrow> string" where
  \<comment> \<open>the inner \<open>switch (condition)\<close> of the cases \<open>data\<close> and \<open>attribute\<close>, which the
      source writes twice with different variable names\<close>
  \<open>attributeSelector cond attrName attrValue =
     (case cond of
        Contains \<Rightarrow>
          (if attrValue \<noteq> [] then ''['' @ attrName @ ''*="'' @ attrValue @ ''"]''
           else ''['' @ attrName @ '']'')
      | Equals \<Rightarrow>
          (if attrValue \<noteq> [] then ''['' @ attrName @ ''="'' @ attrValue @ ''"]''
           else ''['' @ attrName @ '']'')
      | StartsWith \<Rightarrow>
          (if attrValue \<noteq> [] then ''['' @ attrName @ ''^="'' @ attrValue @ ''"]''
           else ''['' @ attrName @ '']'')
      | EndsWith \<Rightarrow>
          (if attrValue \<noteq> [] then ''['' @ attrName @ ''$="'' @ attrValue @ ''"]''
           else ''['' @ attrName @ '']'')
      | Exists \<Rightarrow> ''['' @ attrName @ '']''
      | NotExists \<Rightarrow> '':not(['' @ attrName @ ''])'')\<close>

definition selectorPart :: "attributeKind \<Rightarrow> conditionType \<Rightarrow> string \<Rightarrow> string" where
  \<comment> \<open>the \<open>switch (attribute)\<close>; a combination with no \<open>case\<close> leaves \<open>selectorPart\<close> empty\<close>
  \<open>selectorPart attr cond v =
     (case attr of
        Class \<Rightarrow>
          (case cond of
             Contains \<Rightarrow> ''[class*="'' @ v @ ''"]''
           | Equals \<Rightarrow> ''[class="'' @ v @ ''"]''
           | StartsWith \<Rightarrow> ''[class^="'' @ v @ ''"]''
           | EndsWith \<Rightarrow> ''[class$="'' @ v @ ''"]''
           | Exists \<Rightarrow> ''[class]''
           | NotExists \<Rightarrow> '':not([class])'')
      | Id \<Rightarrow>
          (case cond of
             Contains \<Rightarrow> ''[id*="'' @ v @ ''"]''
           | Equals \<Rightarrow> ''#'' @ v
           | StartsWith \<Rightarrow> ''[id^="'' @ v @ ''"]''
           | EndsWith \<Rightarrow> ''[id$="'' @ v @ ''"]''
           | Exists \<Rightarrow> ''[id]''
           | NotExists \<Rightarrow> '':not([id])'')
      | Data \<Rightarrow>
          (let parts = jsSplit (CHR ''='') v;
               attrName = (if startsWith (part0 parts) ''data-'' then part0 parts
                           else ''data-'' @ part0 parts);
               attrValue = part1 parts
           in attributeSelector cond attrName attrValue)
      | Text \<Rightarrow>
          (case cond of
             Contains \<Rightarrow> '':contains("'' @ v @ ''")''
           | Equals \<Rightarrow> '':contains("'' @ v @ ''")''
           | StartsWith \<Rightarrow> '':contains("'' @ v @ ''")''
           | EndsWith \<Rightarrow> '':contains("'' @ v @ ''")''
           | Exists \<Rightarrow> []
           | NotExists \<Rightarrow> [])
      | Tag \<Rightarrow> (if cond = Equals then toLowerCase v else [])
      | Attribute \<Rightarrow>
          (let attrParts = jsSplit (CHR ''='') v;
               customAttrName = part0 attrParts;
               customAttrValue = part1 attrParts
           in attributeSelector cond customAttrName customAttrValue))\<close>

definition rowSelectorPart :: "conditionRow \<Rightarrow> string" where
  \<comment> \<open>the callback of \<open>rows.forEach\<close>: a row with an empty value is skipped unless its
      condition is \<open>exists\<close> or \<open>not-exists\<close>\<close>
  "rowSelectorPart row =
     (if rowValue row = [] \<and> condition row \<noteq> Exists \<and> condition row \<noteq> NotExists then []
      else selectorPart (attribute row) (condition row) (rowValue row))"

definition updateSelectorPreview :: "conditionRow list \<Rightarrow> string" where
  \<comment> \<open>the value of \<open>selector\<close> after the loop: \<open>if (selectorPart) selector += selectorPart\<close>\<close>
  "updateSelectorPreview rows =
     foldl (\<lambda>selector row.
              if rowSelectorPart row \<noteq> [] then selector @ rowSelectorPart row else selector)
       [] rows"

definition firstEqualsSplit :: "string \<Rightarrow> string \<times> string" where
  \<comment> \<open>the specification's words, "split on the first \<open>=\<close>": the text before the first
      \<open>=\<close> and the whole text after it\<close>
  "firstEqualsSplit v =
     (takeWhile (\<lambda>c. c \<noteq> CHR ''='') v, drop 1 (dropWhile (\<lambda>c. c \<noteq> CHR ''='') v))"

section \<open>Advanced selector builder of the second ScriptBuilder (buildAdvancedSelector)\<close>

text \<open>
  The second builder has the attribute options \<open>class\<close>, \<open>id\<close>, \<open>tag\<close>, \<open>attribute\<close>,
  \<open>text\<close>, \<open>parent\<close> and the operator options \<open>contains\<close>, \<open>equals\<close>, \<open>starts\<close>, \<open>ends\<close>,
  \<open>exists\<close>, \<open>not-exists\<close>; \<open>StartsWith\<close> and \<open>EndsWith\<close> stand for \<open>starts\<close> and \<open>ends\<close>
  here. The \<open>default\<close> branches of the source are written where an operator has no
  \<open>case\<close> of its own.
\<close>

datatype itemAttributeKind = ItemClass | ItemId | ItemTag | ItemAttribute | ItemText | ItemParent

record conditionItem =
  itemAttribute :: itemAttributeKind
  itemOperator :: conditionType
  itemValue :: string

definition buildClassSelector :: "conditionType \<Rightarrow> string \<Rightarrow> string" where
  \<open>buildClassSelector operator v =
     (case operator of
        Contains \<Rightarrow> ''[class*="'' @ v @ ''"]''
      | Equals \<Rightarrow> ''.'' @ v
      | StartsWith \<Rightarrow> ''[class^="'' @ v @ ''"], [class*=" '' @ v @ ''"]''
      | EndsWith \<Rightarrow> ''[class$="'' @ v @ ''"], [class*="'' @ v @ '' "]''
      | Exists \<Rightarrow> ''[class]''
      | NotExists \<Rightarrow> '':not([class])'')\<close>

definition buildIdSelector :: "conditionType \<Rightarrow> string \<Rightarrow> string" where
  \<open>buildIdSelector operator v =
     (case operator of
        Contains \<Rightarrow> ''[id*="'' @ v @ ''"]''
      | Equals \<Rightarrow> ''#'' @ v
      | StartsWith \<Rightarrow> ''[id^="'' @ v @ ''"]''
      | EndsWith \<Rightarrow> ''[id$="'' @ v @ ''"]''
      | Exists \<Rightarrow> ''[id]''
      | NotExists \<Rightarrow> '':not([id])'')\<close>

definition buildTagSelector :: "conditionType \<Rightarrow> string \<Rightarrow> string" where
  "buildTagSelector operator v =
     (case operator of
        Equals \<Rightarrow> toLowerCase v
      | Exists \<Rightarrow> ''*''
      | _ \<Rightarrow> toLowerCase v)"

definition buildAttributeSelector :: "conditionType \<Rightarrow> string \<Rightarrow> string" where
  \<comment> \<open>\<open>value.includes('=') ? value.split('=') : [value, '']\<close>, destructured into the
      first two elements\<close>
  \<open>buildAttributeSelector operator v =
     (let attrName = part0 (jsSplit (CHR ''='') v);
          attrValue = part1 (jsSplit (CHR ''='') v)
      in case operator of
           Contains \<Rightarrow>
             (if attrValue \<noteq> [] then ''['' @ attrName @ ''*="'' @ attrValue @ ''"]''
              else ''['' @ attrName @ '']'')
         | Equals \<Rightarrow>
             (if attrValue \<noteq> [] then ''['' @ attrName @ ''="'' @ attrValue @ ''"]''
              else ''['' @ attrName @ '']'')
         | StartsWith \<Rightarrow>
             (if attrValue \<noteq> [] then ''['' @ attrName @ ''^="'' @ attrValue @ ''"]''
              else ''['' @ attrName @ '']'')
         | EndsWith \<Rightarrow>
             (if attrValue \<noteq> [] then ''['' @ attrName @ ''$="'' @ attrValue @ ''"]''
              else ''['' @ attrName @ '']'')
         | Exists \<Rightarrow> ''['' @ attrName @ '']''
         | NotExists \<Rightarrow> '':not(['' @ attrName @ ''])'')\<close>

definition buildTextSelector :: "conditionType \<Rightarrow> string \<Rightarrow> string" where
  \<open>buildTextSelector operator v =
     (case operator of
        Contains \<Rightarrow> ''*[data-text-contains="'' @ v @ ''"]''
      | Equals \<Rightarrow> ''*[data-text-equals="'' @ v @ ''"]''
      | StartsWith \<Rightarrow> ''*[data-text-starts="'' @ v @ ''"]''
      | EndsWith \<Rightarrow> ''*[data-text-ends="'' @ v @ ''"]''
      | _ \<Rightarrow> ''*[data-text-contains="'' @ v @ ''"]'')\<close>

definition buildParentSelector :: "conditionType \<Rightarrow> string \<Rightarrow> string" where
  "buildParentSelector operator v =
     (case operator of
        Contains \<Rightarrow> v @ '' *''
      | Equals \<Rightarrow> v @ '' > *''
      | _ \<Rightarrow> v @ '' *'')"

definition buildConditionSelector :: "itemAttributeKind \<Rightarrow> conditionType \<Rightarrow> string \<Rightarrow> string" where
  "buildConditionSelector attr operator v =
     (case attr of
        ItemClass \<Rightarrow> buildClassSelector operator v
      | ItemId \<Rightarrow> buildIdSelector operator v
      | ItemTag \<Rightarrow> buildTagSelector operator v
      | ItemAttribute \<Rightarrow> buildAttributeSelector operator v
      | ItemText \<Rightarrow> buildTextSelector operator v
      | ItemParent \<Rightarrow> buildParentSelector operator v)"

definition buildAdvancedSelector :: "conditionItem list \<Rightarrow> string" where
  \<comment> \<open>a condition is used only \<open>if (attribute && value)\<close>; the parts are joined with
      the empty string\<close>
  "buildAdvancedSelector conditions =
     concat (filter (\<lambda>selectorPart. selectorPart \<noteq> [])
       (map (\<lambda>c. buildConditionSelector (itemAttribute c) (itemOperator c) (itemValue c))
          (filter (\<lambda>c. itemValue c \<noteq> []) conditions)))"

section \<open>Configuration and stored scripts\<close>

text \<open>
  The configuration object that \<open>gatherConfiguration\<close> builds and that the builder and
  the history manager read. \<open>actionOptions\<close> and \<open>features\<close> are objects whose keys are
  enumerated in insertion order (\<open>Object.keys\<close>), so they are association lists; a
  key that is absent reads as \<open>undefined\<close>, which is falsy.
\<close>

record config =
  scriptName :: string
  scriptDescription :: string
  targetSelector :: string
  selectorType :: string
  fallbackSelectors :: "string list"
  waitForElement :: bool
  multipleElements :: bool
  actionType :: string
  actionOptions :: "(string \<times> string) list"
  features :: "(string \<times> bool) list"

definition feature :: "(string \<times> bool) list \<Rightarrow> string \<Rightarrow> bool" where
  \<comment> \<open>the truthiness of \<open>features[f]\<close>\<close>
  "feature fs f = (case map_of fs f of None \<Rightarrow> False | Some b \<Rightarrow> b)"

definition enabledFeatures :: "(string \<times> bool) list \<Rightarrow> string list" where
  \<comment> \<open>\<open>Object.keys(features).filter(f => features[f])\<close>\<close>
  "enabledFeatures fs = filter (feature fs) (map fst fs)"

text \<open>The record that \<open>saveScript\<close> writes to the history store.\<close>

record scriptStats =
  statLines :: nat
  statSize :: nat
  statCharacters :: nat

record storedScript =
  scriptId :: string
  name :: string
  description :: string
  code :: string
  savedConfig :: config
  savedFeatures :: "string list"
  savedActionType :: string
  timestamp :: int
  version :: string
  stats :: scriptStats

section \<open>The browser\<close>

text \<open>
  What the builder and the history manager can read from the browser, passed to each
  function that runs in it: whether \<open>document.querySelector\<close> accepts a selector (it
  raises \<open>SyntaxError\<close> otherwise), the clock \<open>Date.now()\<close>, the text
  \<open>Math.random().toString(36).substr(2, 9)\<close>, the byte size of a \<open>Blob\<close> of a text, and
  \<open>JSON.stringify\<close> of an array of strings.
\<close>

record host =
  selectorParses :: "string \<Rightarrow> bool"
  now :: int
  randomText :: string
  blobSize :: "string \<Rightarrow> nat"
  stringifyArray :: "string list \<Rightarrow> string"

section \<open>History manager: sortScripts\<close>

text \<open>
  Arrays are objects with identity: \<open>[...scripts]\<close> allocates a new array and
  \<open>Array.prototype.sort\<close> reorders its receiver in place and returns it. The store holds
  the arrays; a reference is an index into it, and allocation appends.
\<close>

type_synonym 'a arrayStore = "'a list list"

type_synonym arrayRef = nat

definition readArray :: "'a arrayStore \<Rightarrow> arrayRef \<Rightarrow> 'a list option" where
  "readArray store r = (if r < length store then Some (store ! r) else None)"

definition newArray :: "'a arrayStore \<Rightarrow> 'a list \<Rightarrow> arrayRef \<times> 'a arrayStore" where
  "newArray store xs = (length store, store @ [xs])"

fun insertBy :: "('a \<Rightarrow> 'a \<Rightarrow> int) \<Rightarrow> 'a \<Rightarrow> 'a list \<Rightarrow> 'a list" where
  "insertBy compareFn x [] = [x]"
| "insertBy compareFn x (y # ys) =
     (if compareFn x y \<le> 0 then x # y # ys else y # insertBy compareFn x ys)"

definition jsSort :: "('a \<Rightarrow> 'a \<Rightarrow> int) \<Rightarrow> 'a list \<Rightarrow> 'a list" where
  \<comment> \<open>the order \<open>Array.prototype.sort\<close> gives with a comparison function: \<open>a\<close> goes before
      \<open>b\<close> when \<open>compareFn(a, b) < 0\<close>, and elements that compare equal keep their order
      (the sort is stable)\<close>
  "jsSort compareFn xs = foldr (insertBy compareFn) xs []"

definition sortInPlace ::
  "('a \<Rightarrow> 'a \<Rightarrow> int) \<Rightarrow> 'a arrayStore \<Rightarrow> arrayRef \<Rightarrow> 'a arrayStore" where
  "sortInPlace compareFn store r =
     (if r < length store then store[r := jsSort compareFn (store ! r)] else store)"

datatype jsError = TypeError | Error string

definition sortScripts ::
  "(string \<Rightarrow> string \<Rightarrow> int) \<Rightarrow> storedScript arrayStore \<Rightarrow> arrayRef \<Rightarrow> string option
     \<Rightarrow> jsError + (arrayRef \<times> storedScript arrayStore)" where
  \<comment> \<open>\<open>localeCompare\<close> is the host's string collation, a parameter here; a reference
      that is no array makes the spread \<open>[...scripts]\<close> raise; \<open>sortBy\<close> is \<open>None\<close> when the
      caller passes no key, and the default \<open>'date-desc'\<close> stands in\<close>
  "sortScripts localeCompare store scripts sortByArg =
     (case readArray store scripts of
        None \<Rightarrow> Inl TypeError
      | Some xs \<Rightarrow>
          (let sortBy = (case sortByArg of None \<Rightarrow> ''date-desc'' | Some k \<Rightarrow> k);
               (sorted, store1) = newArray store xs in
           if sortBy = ''date-desc'' then
             Inr (sorted, sortInPlace (\<lambda>a b. timestamp b - timestamp a) store1 sorted)
           else if sortBy = ''date-asc'' then
             Inr (sorted, sortInPlace (\<lambda>a b. timestamp a - timestamp b) store1 sorted)
           else if sortBy = ''name-asc'' then
             Inr (sorted, sortInPlace (\<lambda>a b. localeCompare (name a) (name b)) store1 sorted)
           else if sortBy = ''name-desc'' then
             Inr (sorted, sortInPlace (\<lambda>a b. localeCompare (name b) (name a)) store1 sorted)
           else Inr (sorted, store1)))"

section \<open>Local storage helpers (window.storage)\<close>

text \<open>
  \<open>localStorage\<close> maps keys to strings. \<open>getItem\<close> gives \<open>null\<close> for an absent key, and
  \<open>setItem\<close> raises \<open>QuotaExceededError\<close> when the new contents do not fit the quota of the
  origin. The size counted is the length of all keys and values.
\<close>

record localStorage =
  items :: "(string \<times> string) list"
  quota :: nat

datatype storageError = QuotaExceededError

definition usedSize :: "(string \<times> string) list \<Rightarrow> nat" where
  "usedSize kvs = sum_list (map (\<lambda>(k, v). length k + length v) kvs)"

definition getItem :: "localStorage \<Rightarrow> string \<Rightarrow> string option" where
  "getItem ls key = map_of (items ls) key"

definition setItem :: "localStorage \<Rightarrow> string \<Rightarrow> string \<Rightarrow> storageError + localStorage" where
  "setItem ls key v =
     (let items' = AList.update key v (items ls) in
      if usedSize items' \<le> quota ls then Inr (ls\<lparr>items := items'\<rparr>)
      else Inl QuotaExceededError)"

text \<open>
  \<open>JSON.stringify\<close> and \<open>JSON.parse\<close> belong to the host. \<open>stringify\<close> returns a text,
  returns \<open>undefined\<close> (for \<open>undefined\<close>, a function or a symbol) or raises (a cyclic
  value); \<open>parse\<close> returns a value or raises \<open>SyntaxError\<close> (\<open>None\<close>). The helper does not
  look into the values, so their type is a parameter, with its \<open>null\<close>. The messages
  that the \<open>catch\<close> blocks write to the console are left out.
\<close>

datatype stringifyResult = JsonText string | UndefinedResult | Raises

record 'v jsonCodec =
  stringify :: "'v \<Rightarrow> stringifyResult"
  parse :: "string \<Rightarrow> 'v option"
  null :: 'v

definition storageGet :: "'v jsonCodec \<Rightarrow> localStorage \<Rightarrow> string \<Rightarrow> 'v" where
  \<comment> \<open>\<open>storage.get(key)\<close>: \<open>item ? JSON.parse(item) : null\<close>, and \<open>null\<close> from the
      \<open>catch\<close> block when \<open>JSON.parse\<close> raises; the empty string is falsy\<close>
  "storageGet JSON ls key =
     (case getItem ls key of
        None \<Rightarrow> null JSON
      | Some item \<Rightarrow>
          if item = [] then null JSON
          else (case parse JSON item of None \<Rightarrow> null JSON | Some v \<Rightarrow> v))"

definition storageSet ::
  "'v jsonCodec \<Rightarrow> localStorage \<Rightarrow> string \<Rightarrow> 'v \<Rightarrow> bool \<times> localStorage" where
  \<comment> \<open>\<open>storage.set(key, value)\<close>: \<open>true\<close> after \<open>setItem\<close>, \<open>false\<close> from the \<open>catch\<close> block,
      with the storage as it was; \<open>setItem(key, undefined)\<close> stores the text
      \<open>undefined\<close>\<close>
  "storageSet JSON ls key v =
     (case stringify JSON v of
        Raises \<Rightarrow> (False, ls)
      | UndefinedResult \<Rightarrow>
          (case setItem ls key ''undefined'' of
             Inl e \<Rightarrow> (False, ls)
           | Inr ls' \<Rightarrow> (True, ls'))
      | JsonText s \<Rightarrow>
          (case setItem ls key s of
             Inl e \<Rightarrow> (False, ls)
           | Inr ls' \<Rightarrow> (True, ls')))"

text \<open>A codec for the three JSON literals, for concrete evaluation.\<close>

datatype literalValue = LNull | LTrue | LFalse

definition literalJSON :: "literalValue jsonCodec" where
  "literalJSON =
     \<lparr>stringify = (\<lambda>v. case v of LNull \<Rightarrow> JsonText ''null'' | LTrue \<Rightarrow> JsonText ''true''
                                | LFalse \<Rightarrow> JsonText ''false''),
      parse = (\<lambda>s. if s = ''null'' then Some LNull else if s = ''true'' then Some LTrue
                    else if s = ''false'' then Some LFalse else None),
      null = LNull\<rparr>"

section \<open>Script builder (ScriptBuilder in the builder module)\<close>

definition newline :: string where
  "newline = [CHR 0x0A]"

fun jsJoin :: "string \<Rightarrow> string list \<Rightarrow> string" where
  \<comment> \<open>\<open>xs.join(sep)\<close>\<close>
  "jsJoin sep [] = []"
| "jsJoin sep [x] = x"
| "jsJoin sep (x # y # ys) = x @ sep @ jsJoin sep (y # ys)"

definition joinLines :: "string list \<Rightarrow> string" where
  \<comment> \<open>the text of a template literal, line by line\<close>
  "joinLines ls = jsJoin newline ls"

subsection \<open>loadTemplates\<close>

text \<open>
  \<open>loadTemplates\<close> returns an object of functions that return text. Every template but
  \<open>header\<close> and \<open>waitForElement\<close> takes no argument. A template literal starts right after
  the back quote, so its first line is empty. \<open>waitForElement\<close> is called with the
  selector only: its second parameter has its default \<open>10000\<close>, the only value the
  template interpolates (the selector occurs in it as the escaped text \<open>${selector}\<close>).
\<close>

definition isUpper :: "char \<Rightarrow> bool" where
  \<comment> \<open>the regular-expression class \<open>[A-Z]\<close>\<close>
  "isUpper c = (65 \<le> (of_char c :: nat) \<and> (of_char c :: nat) \<le> 90)"

definition toUpperChar :: "char \<Rightarrow> char" where
  "toUpperChar c =
     (case map_of (zip ''abcdefghijklmnopqrstuvwxyz'' ''ABCDEFGHIJKLMNOPQRSTUVWXYZ'') c of
        None \<Rightarrow> c
      | Some d \<Rightarrow> d)"

definition humanizeFeature :: "string \<Rightarrow> string" where
  \<comment> \<open>\<open>featureName = feature.replace(/([A-Z])/g, ' $1').toLowerCase()\<close>, then
      \<open>featureName.charAt(0).toUpperCase() + featureName.slice(1)\<close>\<close>
  "humanizeFeature feat =
     (let featureName = toLowerCase (concat (map (\<lambda>c. if isUpper c then [CHR '' '', c] else [c]) feat))
      in case featureName of [] \<Rightarrow> [] | c # cs \<Rightarrow> toUpperChar c # cs)"

definition headerTemplate :: "string \<Rightarrow> string list \<Rightarrow> string" where
  "headerTemplate desc enabled =
     jsJoin newline
       ([''/**''] @
        (if desc \<noteq> [] then ['' * '' @ desc, '' * '' @ replicate 60 (CHR ''-'')] else []) @
        (if enabled \<noteq> []
         then ['' * '', '' * Enabled Features:''] @ map (\<lambda>f. '' * - '' @ humanizeFeature f) enabled
         else []) @
        ['' */''])"

definition domReadyTemplate :: string where
  \<open>domReadyTemplate = joinLines
     ['''',
      ''    // DOM ready state handling'',
      ''    if (document.readyState === 'loading') {'',
      ''        document.addEventListener('DOMContentLoaded', mainFunction);'',
      ''    } else {'',
      ''        mainFunction();'',
      ''    }'']\<close>

definition spaNavigationTemplate :: string where
  \<open>spaNavigationTemplate = joinLines
     ['''',
      ''    // SPA navigation handling'',
      ''    let navigationObserver = null;'',
      ''    '',
      ''    function handleNavigation() {'',
      ''        // Clean up previous instance'',
      ''        if (navigationObserver) {'',
      ''            navigationObserver.disconnect();'',
      ''        }'',
      ''        '',
      ''        // Re-run main function after navigation'',
      ''        setTimeout(() => {'',
      ''            mainFunction();'',
      ''        }, 500);'',
      ''    }'',
      ''    '',
      ''    // Listen for navigation events'',
      ''    window.addEventListener('popstate', handleNavigation);'',
      ''    '',
      ''    // Override pushState for SPA detection'',
      ''    const originalPushState = history.pushState;'',
      ''    history.pushState = function() {'',
      ''        originalPushState.apply(history, arguments);'',
      ''        handleNavigation();'',
      ''    };'',
      ''    '',
      ''    const originalReplaceState = history.replaceState;'',
      ''    history.replaceState = function() {'',
      ''        originalReplaceState.apply(history, arguments);'',
      ''        handleNavigation();'',
      ''    };'']\<close>

definition debouncingTemplate :: string where
  \<open>debouncingTemplate = joinLines
     ['''',
      ''    // Debouncing mechanism'',
      ''    let lastExecutionTime = 0;'',
      ''    const DEBOUNCE_DELAY = 1000; // Minimum time between executions'',
      ''    '',
      ''    function shouldExecute() {'',
      ''        const now = Date.now();'',
      ''        if (now - lastExecutionTime < DEBOUNCE_DELAY) {'',
      ''            console.log('Execution debounced');'',
      ''            return false;'',
      ''        }'',
      ''        lastExecutionTime = now;'',
      ''        return true;'',
      ''    }'']\<close>

definition mutationObserverTemplate :: string where
  \<open>mutationObserverTemplate = joinLines
     ['''',
      ''    // DOM mutation observer'',
      ''    const observer = new MutationObserver((mutations) => {'',
      ''        for (const mutation of mutations) {'',
      ''            if (mutation.type === 'childList' && mutation.addedNodes.length > 0) {'',
      ''                // Re-apply modifications if target elements are added'',
      ''                applyModifications();'',
      ''            }'',
      ''        }'',
      ''    });'',
      ''    '',
      ''    // Start observing'',
      ''    observer.observe(document.body, {'',
      ''        childList: true,'',
      ''        subtree: true'',
      ''    });'',
      ''    '',
      ''    // Store observer for cleanup'',
      ''    window.__scriptObserver = observer;'']\<close>

definition cleanupTemplate :: string where
  \<open>cleanupTemplate = joinLines
     ['''',
      ''    // Cleanup function'',
      ''    function cleanup() {'',
      ''        // Remove event listeners'',
      ''        window.removeEventListener('popstate', handleNavigation);'',
      ''        '',
      ''        // Disconnect observers'',
      ''        if (window.__scriptObserver) {'',
      ''            window.__scriptObserver.disconnect();'',
      ''            delete window.__scriptObserver;'',
      ''        }'',
      ''        '',
      ''        // Clear intervals/timeouts'',
      ''        if (window.__scriptInterval) {'',
      ''            clearInterval(window.__scriptInterval);'',
      ''            delete window.__scriptInterval;'',
      ''        }'',
      ''        '',
      ''        console.log('Script cleanup completed');'',
      ''    }'',
      ''    '',
      ''    // Auto-cleanup on page unload'',
      ''    window.addEventListener('beforeunload', cleanup);'']\<close>

definition waitForElementTemplate :: string where
  \<open>waitForElementTemplate = joinLines
     ['''',
      ''    /**'',
      ''     * Wait for element to appear in DOM'',
      ''     */'',
      ''    function waitForElement(selector, timeout = 10000) {'',
      ''        return new Promise((resolve, reject) => {'',
      ''            const element = document.querySelector(selector);'',
      ''            if (element) {'',
      ''                resolve(element);'',
      ''                return;'',
      ''            }'',
      ''            '',
      ''            const observer = new MutationObserver((mutations, obs) => {'',
      ''                const element = document.querySelector(selector);'',
      ''                if (element) {'',
      ''                    obs.disconnect();'',
      ''                    resolve(element);'',
      ''                }'',
      ''            });'',
      ''            '',
      ''            observer.observe(document.body, {'',
      ''                childList: true,'',
      ''                subtree: true'',
      ''            });'',
      ''            '',
      ''            setTimeout(() => {'',
      ''                observer.disconnect();'',
      ''                reject(new Error(`Element ${selector} not found after ${timeout}ms`));'',
      ''            }, timeout);'',
      ''        });'',
      ''    }'']\<close>

definition errorHandlingTemplate :: string where
  \<open>errorHandlingTemplate = joinLines
     ['''',
      ''    // Global error handling'',
      ''    try {'',
      ''        // Main execution'',
      ''        applyModifications();'',
      ''    } catch (error) {'',
      ''        console.error('Script execution error:', error);'',
      ''        // Attempt recovery'',
      ''        setTimeout(() => {'',
      ''            try {'',
      ''                applyModifications();'',
      ''            } catch (retryError) {'',
      ''                console.error('Retry failed:', retryError);'',
      ''            }'',
      ''        }, 1000);'',
      ''    }'']\<close>

definition preventDuplicatesTemplate :: string where
  \<open>preventDuplicatesTemplate = joinLines
     ['''',
      ''    // Prevent duplicate execution'',
      ''    if (window.__scriptExecuted) {'',
      ''        console.log('Script already executed, skipping');'',
      ''        return;'',
      ''    }'',
      ''    window.__scriptExecuted = true;'']\<close>

definition elementCachingTemplate :: string where
  \<open>elementCachingTemplate = joinLines
     ['''',
      ''    // Element caching for performance'',
      ''    const elementCache = new Map();'',
      ''    '',
      ''    function getCachedElement(selector) {'',
      ''        if (!elementCache.has(selector)) {'',
      ''            elementCache.set(selector, document.querySelector(selector));'',
      ''        }'',
      ''        return elementCache.get(selector);'',
      ''    }'',
      ''    '',
      ''    function clearElementCache() {'',
      ''        elementCache.clear();'',
      ''    }'']\<close>

definition resourceCleanupTemplate :: string where
  \<open>resourceCleanupTemplate = joinLines
     ['''',
      ''    // Resource cleanup'',
      ''    function cleanupResources() {'',
      ''        // Clear intervals'',
      ''        if (window.__scriptIntervals) {'',
      ''            window.__scriptIntervals.forEach(id => clearInterval(id));'',
      ''            window.__scriptIntervals = [];'',
      ''        }'',
      ''        '',
      ''        // Clear timeouts'',
      ''        if (window.__scriptTimeouts) {'',
      ''            window.__scriptTimeouts.forEach(id => clearTimeout(id));'',
      ''            window.__scriptTimeouts = [];'',
      ''        }'',
      ''        '',
      ''        // Clear event listeners'',
      ''        if (window.__scriptListeners) {'',
      ''            window.__scriptListeners.forEach(({element, event, handler}) => {'',
      ''                element.removeEventListener(event, handler);'',
      ''            });'',
      ''            window.__scriptListeners = [];'',
      ''        }'',
      ''    }'',
      ''    '',
      ''    window.addEventListener('beforeunload', cleanupResources);'']\<close>

definition intervalMonitoringTemplate :: string where
  \<open>intervalMonitoringTemplate = joinLines
     ['''',
      ''    // Interval monitoring for dynamic content'',
      ''    window.__scriptIntervals = window.__scriptIntervals || [];'',
      ''    '',
      ''    const monitoringInterval = setInterval(() => {'',
      ''        const elements = document.querySelectorAll(selector);'',
      ''        if (elements.length > 0) {'',
      ''            applyModifications();'',
      ''        }'',
      ''    }, 2000); // Check every 2 seconds'',
      ''    '',
      ''    window.__scriptIntervals.push(monitoringInterval);'']\<close>

definition urlChangeMonitoringTemplate :: string where
  \<open>urlChangeMonitoringTemplate = joinLines
     ['''',
      ''    // URL change monitoring'',
      ''    let lastUrl = location.href;'',
      ''    '',
      ''    const urlObserver = new MutationObserver(() => {'',
      ''        const url = location.href;'',
      ''        if (url !== lastUrl) {'',
      ''            lastUrl = url;'',
      ''            console.log('URL changed:', url);'',
      ''            setTimeout(() => applyModifications(), 500);'',
      ''        }'',
      ''    });'',
      ''    '',
      ''    urlObserver.observe(document, { subtree: true, childList: true });'']\<close>

definition consoleLoggingTemplate :: string where
  \<open>consoleLoggingTemplate = joinLines
     ['''',
      ''    // Enhanced console logging'',
      ''    const log = {'',
      ''        info: (msg, ...args) => console.log(`[Script] ${msg}`, ...args),'',
      ''        warn: (msg, ...args) => console.warn(`[Script] ${msg}`, ...args),'',
      ''        error: (msg, ...args) => console.error(`[Script] ${msg}`, ...args),'',
      ''        debug: (msg, ...args) => DEBUG && console.log(`[Script Debug] ${msg}`, ...args)'',
      ''    };'']\<close>

definition elementHighlightingTemplate :: string where
  \<open>elementHighlightingTemplate = joinLines
     ['''',
      ''    // Element highlighting for debugging'',
      ''    function highlightElement(element) {'',
      ''        const originalStyle = element.style.cssText;'',
      ''        element.style.outline = '2px solid #ff0000';'',
      ''        element.style.backgroundColor = 'rgba(255,0,0,0.1)';'',
      ''        '',
      ''        setTimeout(() => {'',
      ''            element.style.cssText = originalStyle;'',
      ''        }, 3000);'',
      ''    }'']\<close>

definition widgetLoaderTemplate :: string where
  \<open>widgetLoaderTemplate = joinLines
     ['''',
      ''    // Widget loader with retry mechanism'',
      ''    function loadWidget(url, containerId, retries = 3) {'',
      ''        const container = document.getElementById(containerId);'',
      ''        if (!container) {'',
      ''            console.error('Widget container not found:', containerId);'',
      ''            return;'',
      ''        }'',
      ''        '',
      ''        const script = document.createElement('script');'',
      ''        script.src = url;'',
      ''        script.async = true;'',
      ''        '',
      ''        script.onload = () => {'',
      ''            console.log('Widget loaded successfully:', url);'',
      ''        };'',
      ''        '',
      ''        script.onerror = () => {'',
      ''            if (retries > 0) {'',
      ''                console.warn(`Widget load failed, retrying... (${retries} left)`);'',
      ''                setTimeout(() => loadWidget(url, containerId, retries - 1), 2000);'',
      ''            } else {'',
      ''                console.error('Failed to load widget after all retries:', url);'',
      ''            }'',
      ''        };'',
      ''        '',
      ''        container.appendChild(script);'',
      ''    }'']\<close>

definition asyncLoadingTemplate :: string where
  \<open>asyncLoadingTemplate = joinLines
     ['''',
      ''    // Async resource loading'',
      ''    async function loadResourceAsync(url) {'',
      ''        try {'',
      ''            const response = await fetch(url);'',
      ''            if (!response.ok) throw new Error(`HTTP error! status: ${response.status}`);'',
      ''            return await response.text();'',
      ''        } catch (error) {'',
      ''            console.error('Failed to load resource:', error);'',
      ''            return null;'',
      ''        }'',
      ''    }'']\<close>

definition fallbackMechanismsTemplate :: string where
  \<open>fallbackMechanismsTemplate = joinLines
     ['''',
      ''    // Fallback mechanisms for resilience'',
      ''    function tryMultipleSelectors(selectors) {'',
      ''        for (const selector of selectors) {'',
      ''            try {'',
      ''                const elements = document.querySelectorAll(selector);'',
      ''                if (elements.length > 0) {'',
      ''                    return elements;'',
      ''                }'',
      ''            } catch (e) {'',
      ''                console.warn(`Invalid selector: ${selector}`);'',
      ''            }'',
      ''        }'',
      ''        return [];'',
      ''    }'']\<close>

definition vdpDetectionTemplate :: string where
  \<open>vdpDetectionTemplate = joinLines
     ['''',
      ''    // VDP (Vehicle Detail Page) detection'',
      ''    function isVDP() {'',
      ''        const indicators = ['',
      ''            window.location.pathname.includes('/vehicle/'),'',
      ''            window.location.pathname.includes('/inventory/'),'',
      ''            document.querySelector('.vehicle-details') !== null,'',
      ''            document.querySelector('[data-vehicle-id]') !== null'',
      ''        ];'',
      ''        return indicators.some(indicator => indicator);'',
      ''    }'',
      ''    '',
      ''    if (!isVDP()) {'',
      ''        console.log('Not a VDP page, skipping');'',
      ''        return;'',
      ''    }'']\<close>

definition srpDetectionTemplate :: string where
  \<open>srpDetectionTemplate = joinLines
     ['''',
      ''    // SRP (Search Results Page) detection'',
      ''    function isSRP() {'',
      ''        const indicators = ['',
      ''            window.location.pathname.includes('/search'),'',
      ''            window.location.pathname.includes('/inventory'),'',
      ''            document.querySelector('.search-results') !== null,'',
      ''            document.querySelector('.vehicle-grid') !== null'',
      ''        ];'',
      ''        return indicators.some(indicator => indicator);'',
      ''    }'',
      ''    '',
      ''    if (!isSRP()) {'',
      ''        console.log('Not an SRP page, skipping');'',
      ''        return;'',
      ''    }'']\<close>

definition customPageDetectionTemplate :: string where
  \<open>customPageDetectionTemplate = joinLines
     ['''',
      ''    // Custom page detection'',
      ''    function detectPageType() {'',
      ''        const path = window.location.pathname;'',
      ''        const pageTypes = {'',
      ''            'home': path === '/' || path === '/index','',
      ''            'contact': path.includes('/contact'),'',
      ''            'about': path.includes('/about'),'',
      ''            'service': path.includes('/service')'',
      ''        };'',
      ''        '',
      ''        for (const [type, match] of Object.entries(pageTypes)) {'',
      ''            if (match) return type;'',
      ''        }'',
      ''        return 'unknown';'',
      ''    }'',
      ''    '',
      ''    const pageType = detectPageType();'',
      ''    console.log('Detected page type:', pageType);'']\<close>

record templates =
  header :: "string \<Rightarrow> string list \<Rightarrow> string"
  domReady :: string
  spaNavigation :: string
  debouncing :: string
  mutationObserver :: string
  cleanup :: string
  waitForElementFn :: "string \<Rightarrow> string"
  errorHandling :: string
  preventDuplicates :: string
  elementCaching :: string
  resourceCleanup :: string
  intervalMonitoring :: string
  urlChangeMonitoring :: string
  consoleLogging :: string
  elementHighlighting :: string
  widgetLoader :: string
  asyncLoading :: string
  fallbackMechanisms :: string
  vdpDetection :: string
  srpDetection :: string
  customPageDetection :: string

definition loadTemplates :: templates where
  "loadTemplates =
     \<lparr>header = headerTemplate,
      domReady = domReadyTemplate,
      spaNavigation = spaNavigationTemplate,
      debouncing = debouncingTemplate,
      mutationObserver = mutationObserverTemplate,
      cleanup = cleanupTemplate,
      waitForElementFn = (\<lambda>selector. waitForElementTemplate),
      errorHandling = errorHandlingTemplate,
      preventDuplicates = preventDuplicatesTemplate,
      elementCaching = elementCachingTemplate,
      resourceCleanup = resourceCleanupTemplate,
      intervalMonitoring = intervalMonitoringTemplate,
      urlChangeMonitoring = urlChangeMonitoringTemplate,
      consoleLogging = consoleLoggingTemplate,
      elementHighlighting = elementHighlightingTemplate,
      widgetLoader = widgetLoaderTemplate,
      asyncLoading = asyncLoadingTemplate,
      fallbackMechanisms = fallbackMechanismsTemplate,
      vdpDetection = vdpDetectionTemplate,
      srpDetection = srpDetectionTemplate,
      customPageDetection = customPageDetectionTemplate\<rparr>"

subsection \<open>generateActionCode\<close>

text \<open>
  The options of an action are an object of strings keyed by the ids of the option
  inputs. \<open>opts.k || d\<close> is \<open>d\<close> when the key is absent or its value empty, a condition
  \<open>opts.k\<close> holds when the key has a non-empty value, and an absent key interpolates as
  the text \<open>undefined\<close>. The tables \<open>actions\<close>, \<open>positions\<close> and \<open>formActions\<close> are looked up
  with the keys written in the source (a key chosen in a select).
\<close>

definition orElse :: "(string \<times> string) list \<Rightarrow> string \<Rightarrow> string \<Rightarrow> string" where
  "orElse opts k d = (case map_of opts k of None \<Rightarrow> d | Some v \<Rightarrow> if v = [] then d else v)"

definition truthy :: "(string \<times> string) list \<Rightarrow> string \<Rightarrow> bool" where
  "truthy opts k = (case map_of opts k of None \<Rightarrow> False | Some v \<Rightarrow> v \<noteq> [])"

definition interp :: "(string \<times> string) list \<Rightarrow> string \<Rightarrow> string" where
  "interp opts k = (case map_of opts k of None \<Rightarrow> ''undefined'' | Some v \<Rightarrow> v)"

definition trim :: "string \<Rightarrow> string" where
  \<comment> \<open>\<open>s.trim()\<close>\<close>
  "trim s = rev (dropWhile isSpace (rev (dropWhile isSpace s)))"

definition getInsertionCode :: "string \<Rightarrow> string" where
  \<comment> \<open>\<open>positions[position] || positions['afterend']\<close>\<close>
  \<open>getInsertionCode position =
     (if position = ''beforebegin'' then ''element.parentNode.insertBefore(newElement, element);''
      else if position = ''afterbegin'' then ''element.insertBefore(newElement, element.firstChild);''
      else if position = ''beforeend'' then ''element.appendChild(newElement);''
      else if position = ''afterend'' then ''element.parentNode.insertBefore(newElement, element.nextSibling);''
      else if position = ''replace'' then ''element.parentNode.replaceChild(newElement, element);''
      else ''element.parentNode.insertBefore(newElement, element.nextSibling);'')\<close>

definition getCustomHtmlInsertionCode :: "string \<Rightarrow> string" where
  \<comment> \<open>\<open>positions[position] || positions['afterend']\<close>\<close>
  \<open>getCustomHtmlInsertionCode position =
     (if position = ''beforebegin'' then ''element.insertAdjacentHTML("beforebegin", customHtmlContent);''
      else if position = ''afterbegin'' then ''element.insertAdjacentHTML("afterbegin", customHtmlContent);''
      else if position = ''beforeend'' then ''element.insertAdjacentHTML("beforeend", customHtmlContent);''
      else if position = ''afterend'' then ''element.insertAdjacentHTML("afterend", customHtmlContent);''
      else if position = ''replace'' then ''element.outerHTML = customHtmlContent;''
      else ''element.insertAdjacentHTML("afterend", customHtmlContent);'')\<close>

definition isQuote :: "char \<Rightarrow> bool" where
  \<comment> \<open>the class \<open>["']\<close>\<close>
  "isQuote c = (c = CHR 0x22 \<or> c = CHR 0x27)"

definition matchAttribute :: "string \<Rightarrow> (string \<times> string) option" where
  \<comment> \<open>\<open>attr.match(/^([^=]+)=["']([^"']*)["']$/)\<close>: the two groups of a match\<close>
  "matchAttribute attr =
     (let attrName = takeWhile (\<lambda>c. c \<noteq> CHR ''='') attr;
          rest = dropWhile (\<lambda>c. c \<noteq> CHR ''='') attr
      in if attrName \<noteq> [] \<and> 3 \<le> length rest \<and> isQuote (rest ! 1) \<and> isQuote (last rest) \<and>
            list_all (\<lambda>c. \<not> isQuote c) (butlast (drop 2 rest))
         then Some (attrName, butlast (drop 2 rest))
         else None)"

fun camelCase :: "string \<Rightarrow> string" where
  \<comment> \<open>\<open>prop.replace(/-([a-z])/g, (g) => g[1].toUpperCase())\<close>\<close>
  "camelCase (c # d # cs) =
     (if c = CHR ''-'' \<and> d \<in> set ''abcdefghijklmnopqrstuvwxyz'' then toUpperChar d # camelCase cs
      else c # camelCase (d # cs))"
| "camelCase cs = cs"

definition addElementCode :: "(string \<times> string) list \<Rightarrow> string" where
  \<open>addElementCode opts =
     (if map_of opts ''elementCreationMode'' = Some ''custom-html'' \<and> truthy opts ''customHtmlContent'' then
        (let position = (if truthy opts ''customHtmlPosition'' then interp opts ''customHtmlPosition''
                         else orElse opts ''position'' ''afterend'')
         in newline @ ''        // Insert custom HTML content'' @ newline @
            ''        const customHtmlContent = `'' @ interp opts ''customHtmlContent'' @ ''`;'' @ newline @
            ''        '' @ getCustomHtmlInsertionCode position)
      else
        (let tagName = (if map_of opts ''elementType'' = Some ''custom'' then orElse opts ''customTagName'' ''div''
                        else orElse opts ''elementType'' ''div'');
             attributes = filter (\<lambda>attr. attr \<noteq> [])
                            (map trim (jsSplit (CHR 0x0A) (orElse opts ''elementAttributes'' [])));
             attributesCode =
               (if truthy opts ''elementAttributes'' then
                  concat (map (\<lambda>attr. case matchAttribute attr of
                                        None \<Rightarrow> []
                                      | Some (attrName, attrValue) \<Rightarrow>
                                          newline @ ''        newElement.setAttribute('' @ [CHR 0x27] @ attrName @ [CHR 0x27] @ '', '' @
                                          [CHR 0x27] @ attrValue @ [CHR 0x27] @ '');'')
                            attributes)
                else [])
         in newline @ ''        // Create and add new element'' @ newline @
            ''        const newElement = document.createElement('' @ [CHR 0x27] @ tagName @ [CHR 0x27] @
            '');'' @ newline @ ''        '' @
            (if truthy opts ''className'' then (''newElement.className = '' @ [CHR 0x27] @
            interp opts ''className'' @ [CHR 0x27] @ '';'') else []) @ newline @ ''        '' @
            (if truthy opts ''elementId'' then (''newElement.id = '' @ [CHR 0x27] @
            interp opts ''elementId'' @ [CHR 0x27] @ '';'') else []) @ newline @ ''        '' @
            (if truthy opts ''innerHTML'' then (''newElement.innerHTML = `'' @ interp opts ''innerHTML'' @
            ''`;'') else (if truthy opts ''elementText'' then (''newElement.textContent = '' @ [CHR 0x27] @
            interp opts ''elementText'' @ [CHR 0x27] @ '';'') else [])) @ attributesCode @ newline @
            ''        '' @ newline @ ''        // Insert element'' @ newline @ ''        '' @
            getInsertionCode (orElse opts ''position'' ''afterend'')))\<close>

definition applyStylesCode :: "(string \<times> string) list \<Rightarrow> string" where
  \<open>applyStylesCode opts =
     (let styles = orElse opts ''styles'' [];
          styleLines = filter (\<lambda>s. trim s \<noteq> []) (jsSplit (CHR '';'') styles);
          statements =
            map (\<lambda>style.
                   let ps = map trim (jsSplit (CHR '':'') style);
                       prop = part0 ps;
                       v = part1 ps
                   in if prop \<noteq> [] \<and> v \<noteq> []
                      then (let camelProp = camelCase prop in ''element.style.'' @ camelProp @ '' = '' @ [CHR 0x27] @ v @ [CHR 0x27] @ '';'')
                      else [])
              styleLines
      in newline @ ''        // Apply CSS styles'' @ newline @ ''        '' @
         jsJoin (newline @ ''        '') (filter (\<lambda>s. s \<noteq> []) statements))\<close>

definition formManipulationCode :: "(string \<times> string) list \<Rightarrow> string" where
  \<open>formManipulationCode opts =
     (let formAction = (case map_of opts ''formAction'' of None \<Rightarrow> [] | Some a \<Rightarrow> a);
          formActionCode =
            (if formAction = ''disable'' then ''element.disabled = true;''
             else if formAction = ''enable'' then ''element.disabled = false;''
             else if formAction = ''readonly'' then ''element.readOnly = true;''
             else if formAction = ''required'' then ''element.required = true;''
             else if formAction = ''setValue'' then ''element.value = '' @ [CHR 0x27] @ orElse opts ''formValue'' [] @ [CHR 0x27] @ '';''
             else if formAction = ''clear'' then ''element.value = '' @ [CHR 0x27] @ [CHR 0x27] @ '';''
             else [])
      in newline @ ''        // Form manipulation'' @ newline @ ''        '' @ formActionCode)\<close>

definition generateActionCode :: "string \<Rightarrow> (string \<times> string) list \<Rightarrow> string" where
  \<comment> \<open>\<open>actions[actionType] ? actions[actionType](options) : ''\<close>\<close>
  \<open>generateActionCode actionKind opts =
     (if actionKind = ''modify-text'' then
        newline @ ''        // Modify text content'' @ newline @ ''        element.textContent = '' @
        [CHR 0x27] @ orElse opts ''newText'' [] @ [CHR 0x27] @ '';''
      else if actionKind = ''modify-html'' then
        newline @ ''        // Modify HTML content'' @ newline @ ''        element.innerHTML = `'' @
        orElse opts ''newHTML'' [] @ ''`;''
      else if actionKind = ''add-element'' then
        addElementCode opts
      else if actionKind = ''remove-element'' then
        newline @ ''        // Remove element'' @ newline @ ''        element.remove();''
      else if actionKind = ''add-class'' then
        newline @ ''        // Add CSS class'' @ newline @ ''        element.classList.add('' @
        [CHR 0x27] @ orElse opts ''className'' [] @ [CHR 0x27] @ '');''
      else if actionKind = ''remove-class'' then
        newline @ ''        // Remove CSS class'' @ newline @ ''        element.classList.remove('' @
        [CHR 0x27] @ orElse opts ''className'' [] @ [CHR 0x27] @ '');''
      else if actionKind = ''set-attribute'' then
        newline @ ''        // Set attribute'' @ newline @ ''        element.setAttribute('' @
        [CHR 0x27] @ orElse opts ''attrName'' [] @ [CHR 0x27] @ '', '' @ [CHR 0x27] @
        orElse opts ''attrValue'' [] @ [CHR 0x27] @ '');''
      else if actionKind = ''apply-styles'' then
        applyStylesCode opts
      else if actionKind = ''add-listener'' then
        newline @ ''        // Add event listener'' @ newline @ ''        element.addEventListener('' @
        [CHR 0x27] @ orElse opts ''eventType'' ''click'' @ [CHR 0x27] @ '', function(event) {'' @
        newline @ ''            '' @ orElse opts ''eventCode'' ''// Event handler code'' @ newline @
        ''        });''
      else if actionKind = ''insert-widget'' then
        newline @ ''        // Insert widget'' @ newline @
        ''        const widgetContainer = document.createElement('div');'' @ newline @
        ''        widgetContainer.id = '' @ [CHR 0x27] @ orElse opts ''widgetId'' ''custom-widget'' @
        [CHR 0x27] @ '';'' @ newline @ ''        widgetContainer.innerHTML = `'' @
        orElse opts ''widgetHTML'' [] @ ''`;'' @ newline @ ''        '' @
        (if truthy opts ''widgetScript'' then (newline @ ''        // Load widget script'' @ newline @
        ''        const script = document.createElement('script');'' @ newline @
        ''        script.src = '' @ [CHR 0x27] @ interp opts ''widgetScript'' @ [CHR 0x27] @ '';'' @
        newline @ ''        script.async = true;'' @ newline @
        ''        document.body.appendChild(script);'') else []) @ newline @ ''        '' @ newline @
        ''        element.appendChild(widgetContainer);''
      else if actionKind = ''toggle-visibility'' then
        (let action = orElse opts ''visibilityAction'' ''toggle''
         in if action = ''toggle'' then newline @ ''        // Toggle visibility'' @ newline @
            ''        element.style.display = element.style.display === 'none' ? '' @ [CHR 0x27] @
            [CHR 0x27] @ '' : 'none';''
            else if action = ''show'' then newline @ ''        // Show element'' @ newline @ ''        element.style.display = '' @
            [CHR 0x27] @ [CHR 0x27] @ '';'' @ newline @ ''        element.style.visibility = 'visible';''
            else newline @ ''        // Hide element'' @ newline @ ''        element.style.display = 'none';'')
      else if actionKind = ''scroll-to'' then
        newline @ ''        // Scroll to element'' @ newline @ ''        element.scrollIntoView({'' @
        newline @ ''            behavior: '' @ [CHR 0x27] @ orElse opts ''scrollBehavior'' ''smooth'' @
        [CHR 0x27] @ '','' @ newline @ ''            block: '' @ [CHR 0x27] @
        orElse opts ''scrollBlock'' ''center'' @ [CHR 0x27] @ newline @ ''        });''
      else if actionKind = ''clone-element'' then
        newline @ ''        // Clone element'' @ newline @ ''        const clone = element.cloneNode('' @
        (if map_of opts ''cloneDeep'' = Some ''true'' then ''true'' else ''false'') @ '');'' @ newline @
        ''        '' @
        (if map_of opts ''clonePosition'' = Some ''after'' then ''element.parentNode.insertBefore(clone, element.nextSibling);'' else (if map_of opts ''clonePosition'' = Some ''before'' then ''element.parentNode.insertBefore(clone, element);'' else ''element.parentNode.appendChild(clone);''))
      else if actionKind = ''wrap-element'' then
        newline @ ''        // Wrap element'' @ newline @
        ''        const wrapper = document.createElement('' @ [CHR 0x27] @
        orElse opts ''wrapperTag'' ''div'' @ [CHR 0x27] @ '');'' @ newline @ ''        '' @
        (if truthy opts ''wrapperClass'' then (''wrapper.className = '' @ [CHR 0x27] @
        interp opts ''wrapperClass'' @ [CHR 0x27] @ '';'') else []) @ newline @
        ''        element.parentNode.insertBefore(wrapper, element);'' @ newline @
        ''        wrapper.appendChild(element);''
      else if actionKind = ''unwrap-element'' then
        newline @ ''        // Unwrap element'' @ newline @
        ''        const parent = element.parentNode;'' @ newline @
        ''        if (parent && parent.parentNode) {'' @ newline @
        ''            while (element.firstChild) {'' @ newline @
        ''                parent.parentNode.insertBefore(element.firstChild, parent);'' @ newline @
        ''            }'' @ newline @ ''            parent.parentNode.removeChild(parent);'' @ newline @
        ''        }''
      else if actionKind = ''form-manipulation'' then
        formManipulationCode opts
      else if actionKind = ''ajax-request'' then
        newline @ ''        // AJAX request'' @ newline @ ''        fetch('' @ [CHR 0x27] @
        orElse opts ''ajaxUrl'' [] @ [CHR 0x27] @ '', {'' @ newline @ ''            method: '' @
        [CHR 0x27] @ orElse opts ''ajaxMethod'' ''GET'' @ [CHR 0x27] @ '','' @ newline @
        ''            headers: {'' @ newline @ ''                'Content-Type': 'application/json'' @
        [CHR 0x27] @ newline @ ''            }'' @ (if truthy opts ''ajaxData'' then ('','' @ newline @
        ''            body: '' @ [CHR 0x27] @ interp opts ''ajaxData'' @ [CHR 0x27]) else []) @ newline @
        ''        })'' @ newline @ ''        .then(response => response.json())'' @ newline @
        ''        .then(data => {'' @ newline @ ''            console.log('AJAX response:', data);'' @
        newline @ ''            // Process response data'' @ newline @ ''        })'' @ newline @
        ''        .catch(error => console.error('AJAX error:', error));''
      else if actionKind = ''cookie-management'' then
        (if map_of opts ''cookieAction'' = Some ''set'' then newline @ ''        // Set cookie'' @ newline @ ''        const expires = new Date();'' @
          newline @ ''        expires.setDate(expires.getDate() + '' @ orElse opts ''cookieExpiry'' ''30'' @
          '');'' @ newline @ ''        document.cookie = '' @ [CHR 0x27] @ interp opts ''cookieName'' @
          ''='' @ interp opts ''cookieValue'' @ ''; expires=' + expires.toUTCString() + '; path=/';''
         else if map_of opts ''cookieAction'' = Some ''get'' then newline @ ''        // Get cookie'' @ newline @ ''        const name = '' @ [CHR 0x27] @
          interp opts ''cookieName'' @ ''=';'' @ newline @
          ''        const decodedCookie = decodeURIComponent(document.cookie);'' @ newline @
          ''        const ca = decodedCookie.split(';');'' @ newline @ ''        for(let c of ca) {'' @
          newline @ ''            while (c.charAt(0) === ' ') c = c.substring(1);'' @ newline @
          ''            if (c.indexOf(name) === 0) {'' @ newline @
          ''                console.log('Cookie value:', c.substring(name.length));'' @ newline @
          ''            }'' @ newline @ ''        }''
         else newline @ ''        // Delete cookie'' @ newline @ ''        document.cookie = '' @ [CHR 0x27] @
          interp opts ''cookieName'' @ ''=; expires=Thu, 01 Jan 1970 00:00:00 UTC; path=/;';'')
      else if actionKind = ''local-storage'' then
        (if map_of opts ''storageAction'' = Some ''set'' then newline @ ''        // Set localStorage item'' @ newline @ ''        localStorage.setItem('' @
          [CHR 0x27] @ interp opts ''storageKey'' @ [CHR 0x27] @ '', '' @ [CHR 0x27] @
          orElse opts ''storageValue'' [] @ [CHR 0x27] @ '');''
         else if map_of opts ''storageAction'' = Some ''get'' then newline @ ''        // Get localStorage item'' @ newline @
          ''        const value = localStorage.getItem('' @ [CHR 0x27] @ interp opts ''storageKey'' @
          [CHR 0x27] @ '');'' @ newline @ ''        console.log('Storage value:', value);''
         else if map_of opts ''storageAction'' = Some ''remove'' then newline @ ''        // Remove localStorage item'' @ newline @
          ''        localStorage.removeItem('' @ [CHR 0x27] @ interp opts ''storageKey'' @ [CHR 0x27] @
          '');''
         else newline @ ''        // Clear all localStorage'' @ newline @ ''        localStorage.clear();'')
      else if actionKind = ''custom'' then
        newline @ ''        // Custom JavaScript code'' @ newline @ ''        '' @
        orElse opts ''customCode'' ''// Your custom code here''
      else [])\<close>

subsection \<open>indent and generateScript\<close>

definition indent :: "string \<Rightarrow> nat \<Rightarrow> string" where
  \<comment> \<open>\<open>text.split('\n').map(line => spaces + line).join('\n')\<close> with
      \<open>spaces = '    '.repeat(level)\<close>\<close>
  "indent text level =
     jsJoin newline
       (map (\<lambda>line. concat (replicate level ''    '') @ line) (jsSplit (CHR 0x0A) text))"

text \<open>
  The builder object holds the template table, which its constructor loads. Its field
  \<open>config\<close> is never read.
\<close>

record scriptBuilder =
  templates :: templates

definition newScriptBuilder :: scriptBuilder where
  "newScriptBuilder = \<lparr>templates = loadTemplates\<rparr>"

definition featureBlock :: "(string \<times> bool) list \<Rightarrow> string \<Rightarrow> string \<Rightarrow> string list" where
  \<comment> \<open>\<open>if (features.f) { script.push(this.indent(template, 1)); script.push('    '); }\<close>\<close>
  "featureBlock feats f template =
     (if feature feats f then [indent template 1, ''    ''] else [])"

definition monitorBlock :: "(string \<times> bool) list \<Rightarrow> string \<Rightarrow> string \<Rightarrow> string list" where
  \<comment> \<open>\<open>if (features.f) { script.push('    '); script.push(this.indent(template, 1)); }\<close>\<close>
  "monitorBlock feats f template =
     (if feature feats f then [''    '', indent template 1] else [])"

definition selectionLines :: "host \<Rightarrow> config \<Rightarrow> string list" where
  \<comment> \<open>the element selection, by \<open>config.selectorType || 'css'\<close> and the fallback
      selectors\<close>
  \<open>selectionLines h config =
     (if (if selectorType config = [] then ''css'' else selectorType config) = ''xpath'' then
        [''        // XPath selector'',
         ''        const xpath = '' @ [CHR 0x27] @ targetSelector config @ [CHR 0x27] @ '';'',
         ''        const xpathResult = document.evaluate(xpath, document, null, XPathResult.ORDERED_NODE_SNAPSHOT_TYPE, null);'',
         ''        const elements = [];'',
         ''        for (let i = 0; i < xpathResult.snapshotLength; i++) {'',
         ''            elements.push(xpathResult.snapshotItem(i));'',
         ''        }'']
      else if fallbackSelectors config \<noteq> [] then
        [''        // Try selectors with fallbacks'',
         ''        const selectors = '' @ stringifyArray h
            (filter (\<lambda>s. s \<noteq> []) (targetSelector config # fallbackSelectors config)) @ '';'',
         ''        let elements = null;'',
         ''        '',
         ''        for (const selector of selectors) {'',
         ''            try {'',
         ''                elements = document.querySelectorAll(selector);'',
         ''                if (elements.length > 0) {'',
         ''                    if (DEBUG) console.log(`Found ${elements.length} elements with selector: ${selector}`);'',
         ''                    break;'',
         ''                }'',
         ''            } catch (e) {'',
         ''                console.warn(`Invalid selector: ${selector}`);'',
         ''            }'',
         ''        }'']
      else
        [''        // Select target elements'',
         ''        const elements = document.querySelectorAll('' @ [CHR 0x27] @ targetSelector config @ [CHR 0x27] @ '');''])\<close>

definition executionLines :: "scriptBuilder \<Rightarrow> config \<Rightarrow> string list" where
  \<comment> \<open>\<open>if (shouldWaitForElement) ... else if (features.errorHandling) ... else ...\<close>\<close>
  \<open>executionLines this config =
     (if waitForElement config then
        [indent (waitForElementFn (templates this) (targetSelector config)) 1,
         ''    '',
         ''    // Wait for element and apply modifications'',
         ''    waitForElement('' @ [CHR 0x27] @ targetSelector config @ [CHR 0x27] @ '')'',
         ''        .then(() => applyModifications())'',
         ''        .catch(error => console.error('Element wait failed:', error));'']
      else if feature (features config) ''errorHandling'' then
        [indent (errorHandling (templates this)) 1]
      else
        [''    // Execute modifications'',
         ''    applyModifications();''])\<close>

definition scriptArray :: "host \<Rightarrow> scriptBuilder \<Rightarrow> config \<Rightarrow> string list" where
  \<comment> \<open>the array \<open>script\<close> of \<open>generateScript\<close>, in the order of its \<open>push\<close> calls\<close>
  \<open>scriptArray h this config =
     (let feats = features config;
          T = templates this;
          functionName = functionNameFromScriptName (scriptName config)
      in
        ([header T (scriptDescription config) (enabledFeatures feats),
          '''',
          ''// Main function with descriptive name'',
          ''function '' @ functionName @ ''() {'',
          ''    'use strict';'',
          ''    ''] @
         featureBlock feats ''preventDuplicates'' (preventDuplicates T) @
         (if feature feats ''debouncing''
          then [indent (debouncing T) 1,
                ''    '',
                ''    if (!shouldExecute()) return;'',
                ''    '']
          else []) @
         (if feature feats ''debugMode''
          then [''    const DEBUG = true;'',
                ''    if (DEBUG) console.log('Script executing...');'',
                ''    '']
          else []) @
         featureBlock feats ''consoleLogging'' (consoleLogging T) @
         featureBlock feats ''elementCaching'' (elementCaching T) @
         featureBlock feats ''vdpDetection'' (vdpDetection T) @
         featureBlock feats ''srpDetection'' (srpDetection T) @
         featureBlock feats ''customPageDetection'' (customPageDetection T) @
         featureBlock feats ''widgetLoader'' (widgetLoader T) @
         featureBlock feats ''asyncLoading'' (asyncLoading T) @
         featureBlock feats ''fallbackMechanisms'' (fallbackMechanisms T) @
         featureBlock feats ''elementHighlighting'' (elementHighlighting T) @
         [''    /**'',
          ''     * Apply modifications to target elements'',
          ''     */'',
          ''    function applyModifications() {''] @
         selectionLines h config @
         [''        '',
          ''        if (!elements || elements.length === 0) {'',
          ''            console.warn('' @ [CHR 0x27] @ ''No elements found for selector: '' @ targetSelector config @ [CHR 0x27] @ '');'',
          ''            return;'',
          ''        }'',
          ''        '',
          ''        // Apply modifications to each element'',
          ''        elements.forEach((element, index) => {'',
          ''            try {'',
          indent (generateActionCode (actionType config) (actionOptions config)) 4,
          ''                '',
          ''                if (DEBUG) console.log(`Modified element ${index + 1}/${elements.length}`);'',
          ''            } catch (error) {'',
          ''                console.error(`Failed to modify element ${index}:`, error);'',
          ''            }'',
          ''        });'',
          ''    }'',
          ''    ''] @
         executionLines this config @
         monitorBlock feats ''mutationObserver'' (mutationObserver T) @
         monitorBlock feats ''intervalMonitoring'' (intervalMonitoring T) @
         monitorBlock feats ''urlChangeMonitoring'' (urlChangeMonitoring T) @
         monitorBlock feats ''resourceCleanup'' (resourceCleanup T) @
         [''}'',
          '''',
          ''// Self-executing wrapper with DOM ready checks'',
          ''(function() {'',
          ''    'use strict';''] @
         featureBlock feats ''spaFriendly'' (spaNavigation T) @
         featureBlock feats ''cleanup'' (cleanup T) @
         [''    const mainFunction = '' @ functionName @ '';'',
          ''    ''] @
         (if feature feats ''domReady''
          then [indent (domReady T) 1]
          else [''    // Execute immediately'',
                ''    mainFunction();'']) @
         [''})();'']))\<close>

definition generateScript :: "host \<Rightarrow> scriptBuilder \<Rightarrow> config \<Rightarrow> string" where
  \<comment> \<open>\<open>return script.join('\n')\<close>\<close>
  "generateScript h this config = jsJoin newline (scriptArray h this config)"

subsection \<open>validateConfig, saveScript and generateAndSave\<close>

record validation =
  valid :: bool
  errors :: "string list"

definition validateConfig :: "host \<Rightarrow> config \<Rightarrow> validation" where
  \<comment> \<open>the tests \<open>!config.scriptName\<close>, \<open>!config.targetSelector\<close>, \<open>!config.actionType\<close>
      (the empty string is falsy) and the \<open>try\<close> around \<open>document.querySelector\<close>, each
      pushing its message\<close>
  "validateConfig h config =
     (let errs =
        (if scriptName config = [] then [''Script name is required''] else []) @
        (if targetSelector config = [] then [''Target selector is required''] else []) @
        (if actionType config = [] then [''Action type is required''] else []) @
        (if selectorParses h (targetSelector config) then [] else [''Invalid CSS selector''])
      in \<lparr>valid = (errs = []), errors = errs\<rparr>)"

function decimal :: "int \<Rightarrow> string" where
  \<comment> \<open>an integer in a template literal\<close>
  "decimal n =
     (if n < 0 then ''-'' @ decimal (- n)
      else if n < 10 then [''0123456789'' ! nat n]
      else decimal (n div 10) @ [''0123456789'' ! nat (n mod 10)])"
  by pat_completeness auto
termination
  by (relation "measure (\<lambda>n. if n < 0 then nat (- n) + 1 else nat n)") auto

definition generateId :: "host \<Rightarrow> string" where
  "generateId h = ''script_'' @ decimal (now h) @ ''_'' @ randomText h"

record scriptData =
  dataName :: string
  dataDescription :: string
  dataCode :: string
  dataConfig :: config
  dataFeatures :: "string list"
  dataActionType :: string
  dataVersion :: string

definition countNewlines :: "string \<Rightarrow> nat" where
  \<comment> \<open>\<open>(code.match(/\n/g) || []).length\<close>\<close>
  "countNewlines s = length (filter (\<lambda>c. c = CHR 0x0A) s)"

definition saveScript ::
  "host \<Rightarrow> storedScript list \<Rightarrow> scriptData \<Rightarrow> jsError + (storedScript \<times> storedScript list)" where
  \<comment> \<open>on an open database; the object store has the key path \<open>id\<close>: \<open>store.add\<close> fails,
      and the promise is rejected, when the id is taken\<close>
  "saveScript h db d =
     (let script =
        \<lparr>scriptId = generateId h,
         name = (if dataName d = [] then ''Untitled Script'' else dataName d),
         description = dataDescription d,
         code = dataCode d,
         savedConfig = dataConfig d,
         savedFeatures = dataFeatures d,
         savedActionType = dataActionType d,
         timestamp = now h,
         version = (if dataVersion d = [] then ''V1'' else dataVersion d),
         stats = \<lparr>statLines = countNewlines (dataCode d) + 1,
                  statSize = blobSize h (dataCode d),
                  statCharacters = length (dataCode d)\<rparr>\<rparr>
      in if scriptId script \<in> set (map scriptId db) then Inl (Error ''ConstraintError'')
         else Inr (script, db @ [script]))"

record generated =
  resultCode :: string
  resultScript :: storedScript

definition generateAndSave ::
  "host \<Rightarrow> scriptBuilder \<Rightarrow> config \<Rightarrow> storedScript list
     \<Rightarrow> (jsError + generated) \<times> storedScript list" where
  \<comment> \<open>the result, or the error thrown, with the history store afterwards\<close>
  "generateAndSave h this config db =
     (let validation = validateConfig h config in
      if \<not> valid validation then (Inl (Error (jsJoin '', '' (errors validation))), db)
      else
        (let generatedCode = generateScript h this config;
             d = \<lparr>dataName = scriptName config,
                  dataDescription = scriptDescription config,
                  dataCode = generatedCode,
                  dataConfig = config,
                  dataFeatures = enabledFeatures (features config),
                  dataActionType = actionType config,
                  dataVersion = ''V1''\<rparr>
         in case saveScript h db d of
              Inl e \<Rightarrow> (Inl e, db)
            | Inr (savedScript, db') \<Rightarrow>
                (Inr \<lparr>resultCode = generatedCode, resultScript = savedScript\<rparr>, db')))"

subsection \<open>The duplicate-execution guard\<close>



text \<open>
  The statements of the \<open>preventDuplicates\<close> template, read as a transformer of the page:
  \<^verbatim>\<open>
  if (window.__scriptExecuted) {
      console.log('Script already executed, skipping');
      return;
  }
  window.__scriptExecuted = true;
  \<close>
  They stand at the start of the generated main function; \<open>rest\<close> is the remainder of its
  body. The page holds the global properties that are truthy, and the console.
\<close>

record page =
  globals :: "string set"
  console :: "string list"


text \<open>
  The second builder names its marker after the action type (\<open>generateScriptId\<close>):
  \<^verbatim>\<open>
  const actionType = config.actionType || 'general';
  return `gcpScript${actionType.charAt(0).toUpperCase() + actionType.slice(1)}Active`;
  \<close>
  \<open>toUpperCase\<close> is the ASCII one here.
\<close>

definition generateScriptId :: "string \<Rightarrow> string" where
  "generateScriptId configActionType =
     (let actionType = (if configActionType = [] then ''general'' else configActionType)
      in ''gcpScript'' @
         (case actionType of [] \<Rightarrow> [] | c # cs \<Rightarrow> toUpperChar c # cs) @ ''Active'')"

section \<open>The editor form: gatherConfiguration and restoreScriptToEditor\<close>

text \<open>
  The part of the page that the two functions touch: the elements with a \<open>value\<close>
  (inputs, text areas and selects) by id, the option values of those that are selects,
  the check boxes by id, the \<open>data-tab\<close> of the active tab button (if one is active),
  the text of \<open>#generatedSelector\<close> (if the element exists), and the ids of the inputs
  inside \<open>#actionOptions\<close> in document order. An id that is not listed has no element.
  Ids are taken to be distinct.
\<close>

record editor =
  inputs :: "(string \<times> string) list"
  selectOptions :: "(string \<times> string list) list"
  checkboxes :: "(string \<times> bool) list"
  activeTab :: "string option"
  generatedSelectorText :: "string option"
  actionOptionInputs :: "string list"

definition getInputValue :: "editor \<Rightarrow> string \<Rightarrow> string" where
  \<comment> \<open>\<open>element ? element.value : ''\<close>\<close>
  "getInputValue e i = (case map_of (inputs e) i of None \<Rightarrow> [] | Some v \<Rightarrow> v)"

definition setInputValue :: "editor \<Rightarrow> string \<Rightarrow> string \<Rightarrow> editor" where
  \<comment> \<open>\<open>if (element) element.value = value || ''\<close>; a select whose options do not have the
      value ends with the empty value\<close>
  "setInputValue e i v =
     (case map_of (inputs e) i of
        None \<Rightarrow> e
      | Some old \<Rightarrow>
          e\<lparr>inputs :=
              AList.update i
                (case map_of (selectOptions e) i of
                   None \<Rightarrow> v
                 | Some opts \<Rightarrow> if v \<in> set opts then v else [])
                (inputs e)\<rparr>)"

definition getCheckboxValue :: "editor \<Rightarrow> string \<Rightarrow> bool" where
  \<comment> \<open>\<open>element ? element.checked : false\<close>\<close>
  "getCheckboxValue e i = (case map_of (checkboxes e) i of None \<Rightarrow> False | Some b \<Rightarrow> b)"

definition setCheckboxValue :: "editor \<Rightarrow> string \<Rightarrow> bool \<Rightarrow> editor" where
  \<comment> \<open>\<open>if (element) element.checked = !!checked\<close>\<close>
  "setCheckboxValue e i b =
     (case map_of (checkboxes e) i of
        None \<Rightarrow> e
      | Some old \<Rightarrow> e\<lparr>checkboxes := AList.update i b (checkboxes e)\<rparr>)"

definition trimIsEmpty :: "string \<Rightarrow> bool" where
  \<comment> \<open>\<open>!s.trim()\<close>\<close>
  "trimIsEmpty s = list_all isSpace s"

definition featureNames :: "string list" where
  "featureNames =
     [''spaFriendly'', ''domReady'', ''errorHandling'', ''preventDuplicates'', ''debouncing'',
      ''elementCaching'', ''resourceCleanup'', ''mutationObserver'', ''intervalMonitoring'',
      ''urlChangeMonitoring'', ''debugMode'', ''consoleLogging'', ''elementHighlighting'',
      ''widgetLoader'', ''asyncLoading'', ''fallbackMechanisms'', ''vdpDetection'',
      ''srpDetection'', ''customPageDetection'', ''cleanup'']"

definition gatherConfiguration :: "editor \<Rightarrow> config" where
  "gatherConfiguration e =
     (let gatheredOptions = map (\<lambda>i. (i, getInputValue e i)) (actionOptionInputs e);
          (selector, selectorKind) =
            (case activeTab e of
               None \<Rightarrow> (getInputValue e ''targetSelector'', ''css'')
             | Some tab \<Rightarrow>
                 (if tab = ''css'' then getInputValue e ''targetSelector''
                  else if tab = ''xpath'' then getInputValue e ''xpathSelector''
                  else if tab = ''advanced'' then
                    (case generatedSelectorText e of
                       None \<Rightarrow> []
                     | Some t \<Rightarrow> if t \<noteq> ''No conditions added'' then t else [])
                  else [],
                  tab))
      in \<lparr>scriptName = getInputValue e ''scriptName'',
          scriptDescription = getInputValue e ''scriptDescription'',
          targetSelector = selector,
          selectorType = selectorKind,
          fallbackSelectors =
            filter (\<lambda>s. \<not> trimIsEmpty s) (jsSplit (CHR 0x0A) (getInputValue e ''fallbackSelectors'')),
          waitForElement = getCheckboxValue e ''waitForElement'',
          multipleElements = getCheckboxValue e ''multipleElements'',
          actionType = getInputValue e ''actionType'',
          actionOptions = gatheredOptions,
          features = map (\<lambda>f. (f, getCheckboxValue e f)) featureNames\<rparr>)"

text \<open>
  \<open>updateActionOptions\<close>, the handler of the \<open>change\<close> event of the action select, replaces
  the content of \<open>#actionOptions\<close> by the HTML for the selected action type, or empties
  it when no type is selected. \<open>actionInputs\<close> stands for \<open>getActionOptionsHTML\<close> as the
  browser parses it: the inputs the HTML creates, each with its id, its initial value
  and, for a select, its option values.
\<close>

definition updateActionOptions ::
  "(string \<Rightarrow> (string \<times> string \<times> string list option) list) \<Rightarrow> editor \<Rightarrow> editor" where
  "updateActionOptions actionInputs e =
     (let selected = getInputValue e ''actionType'';
          created = (if selected = [] then [] else actionInputs selected);
          outside = (\<lambda>i. i \<notin> set (actionOptionInputs e))
      in e\<lparr>inputs := filter (\<lambda>(i, v). outside i) (inputs e) @ map (\<lambda>(i, v, opts). (i, v)) created,
            selectOptions :=
              filter (\<lambda>(i, opts). outside i) (selectOptions e) @
              concat (map (\<lambda>(i, v, opts). case opts of None \<Rightarrow> [] | Some os \<Rightarrow> [(i, os)]) created),
            actionOptionInputs := map (\<lambda>(i, v, opts). i) created\<rparr>)"

definition restoreScriptToEditor ::
  "(string \<Rightarrow> (string \<times> string \<times> string list option) list) \<Rightarrow> editor \<Rightarrow> config option
     \<Rightarrow> editor" where
  \<comment> \<open>the editor once the delayed callback has run; \<open>None\<close> is a script without
      \<open>config\<close>. The updates of \<open>#generatedCode\<close> and of the output buttons are left out:
      \<open>gatherConfiguration\<close> does not read them\<close>
  "restoreScriptToEditor actionInputs e saved =
     (case saved of
        None \<Rightarrow> e
      | Some config \<Rightarrow>
          (let e1 = setInputValue e ''scriptName'' (scriptName config);
               e2 = setInputValue e1 ''scriptDescription'' (scriptDescription config);
               e3 = setInputValue e2 ''targetSelector'' (targetSelector config);
               e4 = setInputValue e3 ''fallbackSelectors''
                      (jsJoin newline (fallbackSelectors config));
               e5 = setCheckboxValue e4 ''waitForElement'' (waitForElement config);
               e6 = setInputValue e5 ''actionType'' (actionType config);
               actionSelect = map_of (inputs e6) ''actionType'';
               e7 = (if actionSelect \<noteq> None then updateActionOptions actionInputs e6 else e6);
               e8 = foldl (\<lambda>ed (f, b). setCheckboxValue ed f b) e7 (features config)
           in if actionSelect \<noteq> None
              then foldl (\<lambda>ed (k, v). setInputValue ed k v) e8 (actionOptions config)
              else e8))"

section \<open>Example data\<close>

definition exampleConfig :: config where
  "exampleConfig =
     \<lparr>scriptName = ''Add Banner'', scriptDescription = ''Adds a banner'',
      targetSelector = ''#hero'', selectorType = ''css'', fallbackSelectors = [],
      waitForElement = False, multipleElements = False, actionType = ''modify-text'',
      actionOptions = [(''newText'', ''Hello'')],
      features = [(''spaFriendly'', False), (''domReady'', True), (''errorHandling'', True),
                  (''preventDuplicates'', True)]\<rparr>"

definition exampleStored :: "string \<Rightarrow> int \<Rightarrow> storedScript" where
  "exampleStored n t =
     \<lparr>scriptId = ''script_'' @ n, name = n, description = '''', code = ''// '' @ n,
      savedConfig = exampleConfig, savedFeatures = [], savedActionType = ''modify-text'',
      timestamp = t, version = ''V1'',
      stats = \<lparr>statLines = 1, statSize = 3 + length n, statCharacters = 3 + length n\<rparr>\<rparr>"

definition exampleHost :: host where
  "exampleHost =
     \<lparr>selectorParses = (\<lambda>s. s \<noteq> [] \<and> CHR ''!'' \<notin> set s), now = 1700000000000,
      randomText = ''k3j9x0q1z'', blobSize = length,
      stringifyArray = (\<lambda>xs. ''['' @ jsJoin '','' (map (\<lambda>x. [CHR 0x22] @ x @ [CHR 0x22]) xs) @ '']'')\<rparr>"

definition customConfig :: config where
  "customConfig =
     \<lparr>scriptName = ''Empty custom'', scriptDescription = '''',
      targetSelector = ''#hero'', selectorType = ''css'', fallbackSelectors = [],
      waitForElement = False, multipleElements = False, actionType = ''custom'',
      actionOptions = [(''customCode'', '''')],
      features = [(''preventDuplicates'', True)]\<rparr>"

definition exampleActionInputs :: "string \<Rightarrow> (string \<times> string \<times> string list option) list" where
  "exampleActionInputs actionKind =
     (if actionKind = ''modify-text'' then [(''newText'', [], None)]
      else if actionKind = ''add-class'' then [(''className'', [], None)]
      else if actionKind = ''toggle-visibility''
        then [(''visibilityAction'', ''toggle'', Some [''toggle'', ''show'', ''hide''])]
      else [])"

definition initialEditor :: editor where
  "initialEditor =
     \<lparr>inputs = [(''scriptName'', []), (''scriptDescription'', []), (''targetSelector'', []),
                (''xpathSelector'', []), (''fallbackSelectors'', []), (''actionType'', [])],
      selectOptions =
        [(''actionType'', ['''', ''modify-text'', ''add-class'', ''remove-element'',
                          ''toggle-visibility'', ''custom''])],
      checkboxes = (''waitForElement'', False) # (''multipleElements'', False) #
                   map (\<lambda>f. (f, False)) featureNames,
      activeTab = Some ''css'',
      generatedSelectorText = Some ''Add conditions to generate selector'',
      actionOptionInputs = []\<rparr>"

definition xpathConfig :: config where
  "xpathConfig =
     \<lparr>scriptName = ''Rename heading'', scriptDescription = ''Sets the title'',
      targetSelector = ''//main/h1'', selectorType = ''xpath'', fallbackSelectors = [''//h1'', ''//h2''],
      waitForElement = True, multipleElements = False, actionType = ''modify-text'',
      actionOptions = [(''newText'', ''Welcome'')],
      features = map (\<lambda>f. (f, f = ''domReady'' \<or> f = ''errorHandling'')) featureNames\<rparr>"

section \<open>Properties of the identifier sanitization\<close>

lemma functionNameFromScriptName_example: "functionNameFromScriptName ''My Script!'' = ''My_Script''"
  by (simp add: functionNameFromScriptName_def replaceNonAlnum_def isAlnum_def isDigit_def
      stripTrailingUnderscore_def)

lemma functionNameFromScriptName_empty: "functionNameFromScriptName '''' = ''mainFunction''"
  by (simp add: functionNameFromScriptName_def replaceNonAlnum_def stripTrailingUnderscore_def)

text \<open>
  The result is never empty and never starts or ends with an underscore; but a leading
  digit of the script name is the first character of the result.
\<close>

lemma collapseUnderscores_head: "\<exists>t. collapseUnderscores (c # cs) = c # t"
  by (induction cs arbitrary: c) auto

lemma noDoubleUnderscore_collapse: "noDoubleUnderscore (collapseUnderscores s)"
proof (induction s rule: collapseUnderscores.induct)
  case 1
  show ?case by simp
next
  case (2 c)
  show ?case by simp
next
  case (3 c d cs)
  obtain t where t: "collapseUnderscores (d # cs) = d # t"
    using collapseUnderscores_head by blast
  show ?case
  proof (cases "c = CHR ''_'' \<and> d = CHR ''_''")
    case True
    with 3 show ?thesis by simp
  next
    case False
    with 3 t show ?thesis by auto
  qed
qed

lemma noDoubleUnderscore_strip_leading:
  "noDoubleUnderscore s \<Longrightarrow>
   noDoubleUnderscore (stripLeadingUnderscore s) \<and>
   (stripLeadingUnderscore s \<noteq> [] \<longrightarrow> hd (stripLeadingUnderscore s) \<noteq> CHR ''_'')"
proof (cases s)
  case Nil
  then show ?thesis by simp
next
  case (Cons c cs)
  assume "noDoubleUnderscore s"
  with Cons show ?thesis
    by (cases cs) auto
qed

lemma noDoubleUnderscore_butlast_last:
  "noDoubleUnderscore s \<Longrightarrow> s \<noteq> [] \<Longrightarrow> last s = CHR ''_'' \<Longrightarrow>
   butlast s = [] \<or> last (butlast s) \<noteq> CHR ''_''"
proof (induction s rule: noDoubleUnderscore.induct)
  case 1
  then show ?case by simp
next
  case (2 c)
  then show ?case by simp
next
  case (3 c d cs)
  show ?case
  proof (cases cs)
    case Nil
    with 3 show ?thesis by auto
  next
    case (Cons e es)
    with 3 show ?thesis by auto
  qed
qed

lemma strip_trailing_ends:
  assumes "noDoubleUnderscore s" and "s \<noteq> [] \<longrightarrow> hd s \<noteq> CHR ''_''"
  shows "stripTrailingUnderscore s \<noteq> [] \<longrightarrow>
           hd (stripTrailingUnderscore s) \<noteq> CHR ''_'' \<and> last (stripTrailingUnderscore s) \<noteq> CHR ''_''"
proof (cases "s \<noteq> [] \<and> last s = CHR ''_''")
  case False
  with assms show ?thesis
    by (auto simp: stripTrailingUnderscore_def)
next
  case True
  then have st: "stripTrailingUnderscore s = butlast s"
    by (simp add: stripTrailingUnderscore_def)
  from True assms(1) have "butlast s = [] \<or> last (butlast s) \<noteq> CHR ''_''"
    using noDoubleUnderscore_butlast_last by blast
  moreover have "butlast s \<noteq> [] \<longrightarrow> hd (butlast s) = hd s"
    by (cases s) auto
  ultimately show ?thesis
    using st assms(2) True by auto
qed

lemma functionNameFromScriptName_underscores:
  "functionNameFromScriptName s \<noteq> [] \<and>
   hd (functionNameFromScriptName s) \<noteq> CHR ''_'' \<and>
   last (functionNameFromScriptName s) \<noteq> CHR ''_''"
proof -
  let ?c = "collapseUnderscores (escapeLeadingDigit (replaceNonAlnum s))"
  have c: "noDoubleUnderscore ?c"
    by (rule noDoubleUnderscore_collapse)
  have l: "noDoubleUnderscore (stripLeadingUnderscore ?c) \<and>
      (stripLeadingUnderscore ?c \<noteq> [] \<longrightarrow> hd (stripLeadingUnderscore ?c) \<noteq> CHR ''_'')"
    using noDoubleUnderscore_strip_leading [OF c] .
  have t: "stripTrailingUnderscore (stripLeadingUnderscore ?c) \<noteq> [] \<longrightarrow>
      hd (stripTrailingUnderscore (stripLeadingUnderscore ?c)) \<noteq> CHR ''_'' \<and>
      last (stripTrailingUnderscore (stripLeadingUnderscore ?c)) \<noteq> CHR ''_''"
    using strip_trailing_ends l by blast
  show ?thesis
  proof (cases "stripTrailingUnderscore (stripLeadingUnderscore ?c) = []")
    case True
    then show ?thesis
      by (simp add: functionNameFromScriptName_def Let_def)
  next
    case False
    with t show ?thesis
      by (simp add: functionNameFromScriptName_def Let_def)
  qed
qed

lemma isDigit_not_underscore: "isDigit d \<Longrightarrow> d \<noteq> CHR ''_'' \<and> isAlnum d"
  by (auto simp: isDigit_def isAlnum_def Let_def)

lemma functionNameFromScriptName_keeps_digit:
  assumes "isDigit d"
  shows "hd (functionNameFromScriptName (d # rest)) = d"
proof -
  from assms have d: "d \<noteq> CHR ''_''" and a: "isAlnum d"
    using isDigit_not_underscore by blast+
  obtain t where t: "collapseUnderscores (d # replaceNonAlnum rest) = d # t"
    using collapseUnderscores_head by blast
  have "collapseUnderscores (escapeLeadingDigit (replaceNonAlnum (d # rest))) = CHR ''_'' # d # t"
    using assms a d t by (simp add: replaceNonAlnum_def)
  then have s: "stripLeadingUnderscore
      (collapseUnderscores (escapeLeadingDigit (replaceNonAlnum (d # rest)))) = d # t"
    by simp
  have "stripTrailingUnderscore (d # t) \<noteq> [] \<and> hd (stripTrailingUnderscore (d # t)) = d"
    using d by (cases t) (auto simp: stripTrailingUnderscore_def)
  then show ?thesis
    using s by (simp add: functionNameFromScriptName_def Let_def)
qed

text \<open>
  Claim C1. The sanitization is claimed to map \<open>"123"\<close> to \<open>_123\<close> and never to return a
  string with a leading digit. The second \<open>replace\<close> does put an underscore in front of
  the digit, but the fourth one removes a leading underscore again: on \<open>"123"\<close> the
  function returns \<open>123\<close>, which starts with a digit.
\<close>

theorem functionNameFromScriptName_leading_digit:
  "functionNameFromScriptName ''123'' = ''123'' \<and> isDigit (hd (functionNameFromScriptName ''123''))"
  by (simp add: functionNameFromScriptName_def replaceNonAlnum_def isAlnum_def isDigit_def
      stripTrailingUnderscore_def)

section \<open>Properties of the selector builders\<close>

lemma jsSplit_unfold:
  "jsSplit sep s =
     takeWhile (\<lambda>c. c \<noteq> sep) s #
       (case dropWhile (\<lambda>c. c \<noteq> sep) s of [] \<Rightarrow> [] | _ # r \<Rightarrow> jsSplit sep r)"
proof (induction s)
  case Nil
  show ?case by simp
next
  case (Cons c cs)
  show ?case
  proof (cases "c = sep")
    case True
    then show ?thesis by simp
  next
    case False
    have "jsSplit sep (c # cs) = (case jsSplit sep cs of [] \<Rightarrow> [[c]] | p # ps \<Rightarrow> (c # p) # ps)"
      using False by simp
    also have "\<dots> = (c # takeWhile (\<lambda>c. c \<noteq> sep) cs) #
        (case dropWhile (\<lambda>c. c \<noteq> sep) cs of [] \<Rightarrow> [] | _ # r \<Rightarrow> jsSplit sep r)"
      by (subst Cons.IH) simp
    finally show ?thesis using False by simp
  qed
qed

lemma part0_jsSplit: "part0 (jsSplit sep s) = takeWhile (\<lambda>c. c \<noteq> sep) s"
  by (subst jsSplit_unfold) (simp add: part0_def)

lemma part1_jsSplit:
  "part1 (jsSplit sep s) = takeWhile (\<lambda>c. c \<noteq> sep) (drop 1 (dropWhile (\<lambda>c. c \<noteq> sep) s))"
proof (cases "dropWhile (\<lambda>c. c \<noteq> sep) s")
  case Nil
  have "jsSplit sep s = [takeWhile (\<lambda>c. c \<noteq> sep) s]"
    by (subst jsSplit_unfold) (simp only: Nil list.case)
  then have "part1 (jsSplit sep s) = []"
    by (simp add: part1_def)
  then show ?thesis
    unfolding Nil by simp
next
  case (Cons d r)
  have "jsSplit sep s = takeWhile (\<lambda>c. c \<noteq> sep) s # jsSplit sep r"
    by (subst jsSplit_unfold) (simp only: Cons list.case)
  then have "part1 (jsSplit sep s) = part0 (jsSplit sep r)"
    by (subst (asm) (2) jsSplit_unfold) (simp add: part1_def part0_jsSplit)
  then show ?thesis
    unfolding Cons by (simp add: part0_jsSplit)
qed

lemma foldl_selector:
  "foldl (\<lambda>selector row.
            if rowSelectorPart row \<noteq> [] then selector @ rowSelectorPart row else selector)
     acc rows = acc @ concat (map rowSelectorPart rows)"
  by (induction rows arbitrary: acc) auto

lemma updateSelectorPreview_concat: "updateSelectorPreview rows = concat (map rowSelectorPart rows)"
  by (simp add: updateSelectorPreview_def foldl_selector)

lemma updateSelectorPreview_row:
  "updateSelectorPreview (pre @ row # post) =
     updateSelectorPreview pre @ rowSelectorPart row @ updateSelectorPreview post"
  by (simp add: updateSelectorPreview_concat)

lemma updateSelectorPreview_Nil: "updateSelectorPreview [] = []"
  by (simp add: updateSelectorPreview_def)

lemma buildAdvancedSelector_class_example:
  \<open>buildAdvancedSelector
     [\<lparr>itemAttribute = ItemClass, itemOperator = Equals, itemValue = ''foo''\<rparr>,
      \<lparr>itemAttribute = ItemId, itemOperator = Exists, itemValue = ''''\<rparr>] = ''.foo''\<close>
  by (simp add: buildAdvancedSelector_def buildConditionSelector_def buildClassSelector_def)

lemma buildAdvancedSelector_text_example:
  \<open>buildAdvancedSelector [\<lparr>itemAttribute = ItemText, itemOperator = Contains, itemValue = ''Buy Now''\<rparr>]
     = ''*[data-text-contains="Buy Now"]''\<close>
  by (simp add: buildAdvancedSelector_def buildConditionSelector_def buildTextSelector_def)

text \<open>
  Claim C2, as stated: a class condition with operator equals and value \<open>v\<close> gives the
  fragment \<open>.v\<close>, so that the list \<open>[{class, equals, "foo"}, {id, exists, ""}]\<close> gives
  \<open>.foo[id]\<close>. The editor's builder writes the attribute selector \<open>[class="v"]\<close> instead.
\<close>

theorem class_condition_counterexample:
  \<open>updateSelectorPreview
      [\<lparr>attribute = Class, condition = Equals, rowValue = ''foo''\<rparr>,
       \<lparr>attribute = Id, condition = Exists, rowValue = ''''\<rparr>] \<noteq> ''.foo[id]''\<close>
  by (simp add: updateSelectorPreview_def rowSelectorPart_def selectorPart_def)

text \<open>
  Claim C2, amended: in any list of rows, a class row with a non-empty value \<open>v\<close>
  contributes \<open>[class="v"]\<close> for equals, \<open>[class*="v"]\<close> for contains, \<open>[class^="v"]\<close> for
  starts-with and \<open>[class$="v"]\<close> for ends-with; a class row contributes \<open>[class]\<close> for
  exists and \<open>:not([class])\<close> for not-exists whatever its value; and the list
  \<open>[{class, equals, "foo"}, {id, exists, ""}]\<close> gives \<open>[class="foo"][id]\<close>.
\<close>

theorem class_condition_fragments:
  \<open>v \<noteq> [] \<Longrightarrow>
   updateSelectorPreview (pre @ \<lparr>attribute = Class, condition = Equals, rowValue = v\<rparr> # post)
     = updateSelectorPreview pre @ ''[class="'' @ v @ ''"]'' @ updateSelectorPreview post \<and>
   updateSelectorPreview (pre @ \<lparr>attribute = Class, condition = Contains, rowValue = v\<rparr> # post)
     = updateSelectorPreview pre @ ''[class*="'' @ v @ ''"]'' @ updateSelectorPreview post \<and>
   updateSelectorPreview (pre @ \<lparr>attribute = Class, condition = StartsWith, rowValue = v\<rparr> # post)
     = updateSelectorPreview pre @ ''[class^="'' @ v @ ''"]'' @ updateSelectorPreview post \<and>
   updateSelectorPreview (pre @ \<lparr>attribute = Class, condition = EndsWith, rowValue = v\<rparr> # post)
     = updateSelectorPreview pre @ ''[class$="'' @ v @ ''"]'' @ updateSelectorPreview post \<and>
   updateSelectorPreview (pre @ \<lparr>attribute = Class, condition = Exists, rowValue = w\<rparr> # post)
     = updateSelectorPreview pre @ ''[class]'' @ updateSelectorPreview post \<and>
   updateSelectorPreview (pre @ \<lparr>attribute = Class, condition = NotExists, rowValue = w\<rparr> # post)
     = updateSelectorPreview pre @ '':not([class])'' @ updateSelectorPreview post \<and>
   updateSelectorPreview
      [\<lparr>attribute = Class, condition = Equals, rowValue = ''foo''\<rparr>,
       \<lparr>attribute = Id, condition = Exists, rowValue = ''''\<rparr>] = ''[class="foo"][id]''\<close>
  by (simp add: updateSelectorPreview_row updateSelectorPreview_Nil rowSelectorPart_def selectorPart_def
      updateSelectorPreview_row [where pre = "[]", simplified])

theorem class_condition_fragments_witness:
  \<open>''foo'' \<noteq> [] \<and>
   updateSelectorPreview
     ([] @ \<lparr>attribute = Class, condition = Equals, rowValue = ''foo''\<rparr> #
        [\<lparr>attribute = Id, condition = Exists, rowValue = ''''\<rparr>]) = ''[class="foo"][id]''\<close>
  using class_condition_fragments [of "''foo''" "[]" "[\<lparr>attribute = Id, condition = Exists, rowValue = ''''\<rparr>]"]
  by (simp add: updateSelectorPreview_def rowSelectorPart_def selectorPart_def)

text \<open>
  Claim C3, as stated: the list \<open>[{text, contains, "Buy Now"}]\<close> gives the marker
  \<open>[data-text-contains="Buy Now"]\<close>. The editor's builder has no such marker: its four
  text cases all write \<open>:contains("v")\<close>.
\<close>

theorem text_condition_counterexample:
  \<open>updateSelectorPreview [\<lparr>attribute = Text, condition = Contains, rowValue = ''Buy Now''\<rparr>]
     \<noteq> ''[data-text-contains="Buy Now"]''\<close>
  by (simp add: updateSelectorPreview_def rowSelectorPart_def selectorPart_def)

text \<open>
  Claim C3, amended: in any list of rows, a text row with a non-empty value \<open>v\<close> and one
  of the operators contains, equals, starts-with, ends-with contributes \<open>:contains("v")\<close>,
  the same fragment for the four operators; the list \<open>[{text, contains, "Buy Now"}]\<close>
  gives \<open>:contains("Buy Now")\<close>.
\<close>

theorem text_condition_fragments:
  \<open>v \<noteq> [] \<Longrightarrow> c \<noteq> Exists \<Longrightarrow> c \<noteq> NotExists \<Longrightarrow>
   updateSelectorPreview (pre @ \<lparr>attribute = Text, condition = c, rowValue = v\<rparr> # post)
     = updateSelectorPreview pre @ '':contains("'' @ v @ ''")'' @ updateSelectorPreview post \<and>
   updateSelectorPreview [\<lparr>attribute = Text, condition = Contains, rowValue = ''Buy Now''\<rparr>]
     = '':contains("Buy Now")''\<close>
  by (cases c)
    (simp_all add: updateSelectorPreview_row updateSelectorPreview_Nil rowSelectorPart_def
      selectorPart_def updateSelectorPreview_row [where pre = "[]", simplified])

theorem text_condition_fragments_witness:
  \<open>''Buy Now'' \<noteq> [] \<and> EndsWith \<noteq> Exists \<and> EndsWith \<noteq> NotExists \<and>
   updateSelectorPreview
     ([] @ \<lparr>attribute = Text, condition = EndsWith, rowValue = ''Buy Now''\<rparr> # [])
     = '':contains("Buy Now")''\<close>
  using text_condition_fragments [of "''Buy Now''" EndsWith "[]" "[]"]
  by (simp add: updateSelectorPreview_Nil)

text \<open>
  The fragment of a data or attribute row, for every value and operator: the name is
  the first element of \<open>value.split('=')\<close> and the value part the second one, so the text
  after a second \<open>=\<close> never reaches the selector. For a data row the name gets the
  prefix \<open>data-\<close> unless it starts with it. The row contributes \<open>:not([name])\<close> for
  not-exists, \<open>[name]\<close> for exists or when the value part is empty, and otherwise
  \<open>[name*="val"]\<close>, \<open>[name="val"]\<close>, \<open>[name^="val"]\<close>, \<open>[name$="val"]\<close>.
\<close>

lemma attributeSelector_fragments:
  \<open>v \<noteq> [] \<or> c = Exists \<or> c = NotExists \<Longrightarrow>
   (let name = takeWhile (\<lambda>x. x \<noteq> CHR ''='') v;
        val = takeWhile (\<lambda>x. x \<noteq> CHR ''='') (drop 1 (dropWhile (\<lambda>x. x \<noteq> CHR ''='') v));
        dataName = (if startsWith name ''data-'' then name else ''data-'' @ name);
        fragment = (\<lambda>n.
          if c = NotExists then '':not(['' @ n @ ''])''
          else if c = Exists \<or> val = [] then ''['' @ n @ '']''
          else ''['' @ n @
                 (case c of Contains \<Rightarrow> ''*'' | StartsWith \<Rightarrow> ''^'' | EndsWith \<Rightarrow> ''$'' | _ \<Rightarrow> [])
                 @ ''="'' @ val @ ''"]'')
    in updateSelectorPreview (pre @ \<lparr>attribute = Attribute, condition = c, rowValue = v\<rparr> # post)
         = updateSelectorPreview pre @ fragment name @ updateSelectorPreview post \<and>
       updateSelectorPreview (pre @ \<lparr>attribute = Data, condition = c, rowValue = v\<rparr> # post)
         = updateSelectorPreview pre @ fragment dataName @ updateSelectorPreview post)\<close>
  by (cases c)
    (auto simp add: updateSelectorPreview_row rowSelectorPart_def selectorPart_def attributeSelector_def
      part0_jsSplit part1_jsSplit Let_def)

lemma attributeSelector_fragments_example:
  \<open>updateSelectorPreview
     [\<lparr>attribute = Tag, condition = Equals, rowValue = ''DIV''\<rparr>,
      \<lparr>attribute = Attribute, condition = StartsWith, rowValue = ''id=7''\<rparr>] = ''div[id^="7"]'' \<and>
   updateSelectorPreview
     [\<lparr>attribute = Tag, condition = Equals, rowValue = ''DIV''\<rparr>,
      \<lparr>attribute = Data, condition = StartsWith, rowValue = ''id=7''\<rparr>] = ''div[data-id^="7"]'' \<and>
   updateSelectorPreview
     [\<lparr>attribute = Data, condition = Contains, rowValue = ''data-role''\<rparr>] = ''[data-role]'' \<and>
   updateSelectorPreview
     [\<lparr>attribute = Attribute, condition = NotExists, rowValue = ''hidden''\<rparr>] = '':not([hidden])''\<close>
  by (simp add: updateSelectorPreview_def rowSelectorPart_def selectorPart_def attributeSelector_def
      part0_def part1_def startsWith_def toLowerCase_def toLowerChar_def Let_def)

text \<open>
  What is lost: when the name and the first segment of the value contain no \<open>=\<close>, an
  attribute row \<open>name=a=b\<close> with operator equals gives \<open>[name="a"]\<close>, whatever \<open>b\<close> is.
\<close>

lemma attributeSelector_drops_rest:
  \<open>CHR ''='' \<notin> set n \<Longrightarrow> CHR ''='' \<notin> set a \<Longrightarrow> a \<noteq> [] \<Longrightarrow>
   updateSelectorPreview
     [\<lparr>attribute = Attribute, condition = Equals, rowValue = n @ ''='' @ a @ ''='' @ b\<rparr>]
     = ''['' @ n @ ''="'' @ a @ ''"]''\<close>
  using attributeSelector_fragments [of "n @ ''='' @ a @ ''='' @ b" Equals "[]" "[]"]
  by (simp add: updateSelectorPreview_Nil Let_def takeWhile_append dropWhile_append
      takeWhile_eq_all_conv [THEN iffD2] dropWhile_eq_Nil_conv [THEN iffD2])

text \<open>
  Claim C6. The value of a data or attribute row is claimed to be split on the first
  \<open>=\<close> into a name part and a value part, as the comments of the source say (extract
  attribute name and value, format \<open>data-attr=somevalue\<close>). The source takes the first
  two elements of \<open>value.split('=')\<close>, which cuts at every \<open>=\<close>: for the attribute row
  \<open>href=a=b\<close> with operator equals the split on the first \<open>=\<close> has the value part
  \<open>a=b\<close>, so the claimed selector is \<open>[href="a=b"]\<close>, and the function returns
  \<open>[href="a"]\<close>.
\<close>

theorem attribute_value_truncated:
  \<open>firstEqualsSplit ''href=a=b'' = (''href'', ''a=b'') \<and>
   updateSelectorPreview [\<lparr>attribute = Attribute, condition = Equals, rowValue = ''href=a=b''\<rparr>]
     = ''[href="a"]'' \<and>
   updateSelectorPreview [\<lparr>attribute = Attribute, condition = Equals, rowValue = ''href=a=b''\<rparr>]
     \<noteq> ''[href="a=b"]''\<close>
  by (simp add: updateSelectorPreview_def rowSelectorPart_def selectorPart_def attributeSelector_def
      part0_def part1_def firstEqualsSplit_def)


section \<open>Properties of sortScripts\<close>

lemma mset_insertBy: "mset (insertBy compareFn x ys) = add_mset x (mset ys)"
  by (induction ys) auto

lemma mset_jsSort: "mset (jsSort compareFn xs) = mset xs"
  by (induction xs) (auto simp: jsSort_def mset_insertBy)

lemma readArray_newArray_old:
  "r < length store \<Longrightarrow> readArray (snd (newArray store xs)) r = readArray store r"
  by (simp add: readArray_def newArray_def nth_append)

lemma readArray_newArray_new: "readArray (snd (newArray store xs)) (fst (newArray store xs)) = Some xs"
  by (simp add: readArray_def newArray_def)

lemma readArray_sortInPlace_other:
  "q \<noteq> r \<Longrightarrow> readArray (sortInPlace compareFn store r) q = readArray store q"
  by (simp add: readArray_def sortInPlace_def)

lemma readArray_sortInPlace_same:
  "readArray store r = Some xs \<Longrightarrow>
   readArray (sortInPlace compareFn store r) r = Some (jsSort compareFn xs)"
  by (auto simp: readArray_def sortInPlace_def split: if_splits)

lemma sortScripts_result:
  assumes "readArray store scripts = Some xs"
  shows "\<exists>ys. sortScripts localeCompare store scripts sortBy
             = Inr (length store, (store @ [xs])[length store := ys]) \<and> mset ys = mset xs \<and>
             (\<forall>k. sortBy = Some k \<and> k \<notin> {''date-desc'', ''date-asc'', ''name-asc'', ''name-desc''}
                  \<longrightarrow> ys = xs)"
  using assms
  by (cases sortBy) (auto simp: sortScripts_def newArray_def sortInPlace_def mset_jsSort Let_def)

text \<open>
  Claim C9. For every array of stored scripts and every sort key, \<open>sortScripts\<close> returns a
  new array (a reference that was not allocated before, so not the argument), whose
  elements are a permutation of the argument's; the argument and every other array of
  the store are unchanged; for an unrecognized sort key the new array has the elements
  in their original order.
\<close>

theorem sortScripts_frame:
  assumes "readArray store scripts = Some xs"
  shows "\<exists>sorted store' ys.
           sortScripts localeCompare store scripts sortBy = Inr (sorted, store') \<and>
           sorted \<noteq> scripts \<and>
           readArray store sorted = None \<and>
           readArray store' scripts = Some xs \<and>
           (\<forall>r. r \<noteq> sorted \<longrightarrow> readArray store' r = readArray store r) \<and>
           readArray store' sorted = Some ys \<and>
           mset ys = mset xs \<and>
           (\<forall>k. sortBy = Some k \<and> k \<notin> {''date-desc'', ''date-asc'', ''name-asc'', ''name-desc''}
                \<longrightarrow> ys = xs)"
proof -
  from assms have lt: "scripts < length store"
    by (simp add: readArray_def split: if_splits)
  obtain ys where ys:
    "sortScripts localeCompare store scripts sortBy
       = Inr (length store, (store @ [xs])[length store := ys])"
    "mset ys = mset xs"
    "\<forall>k. sortBy = Some k \<and> k \<notin> {''date-desc'', ''date-asc'', ''name-asc'', ''name-desc''}
         \<longrightarrow> ys = xs"
    using sortScripts_result [OF assms] by blast
  have old: "readArray ((store @ [xs])[length store := ys]) r = readArray store r"
    if "r \<noteq> length store" for r
    using that by (auto simp: readArray_def nth_append)
  have new: "readArray ((store @ [xs])[length store := ys]) (length store) = Some ys"
    by (simp add: readArray_def)
  show ?thesis
  proof (intro exI conjI)
    show "sortScripts localeCompare store scripts sortBy
            = Inr (length store, (store @ [xs])[length store := ys])"
      by (rule ys(1))
    show "length store \<noteq> scripts"
      using lt by simp
    show "readArray store (length store) = None"
      by (simp add: readArray_def)
    show "readArray ((store @ [xs])[length store := ys]) scripts = Some xs"
      using old [of scripts] lt assms by simp
    show "\<forall>r. r \<noteq> length store \<longrightarrow>
            readArray ((store @ [xs])[length store := ys]) r = readArray store r"
      using old by blast
    show "readArray ((store @ [xs])[length store := ys]) (length store) = Some ys"
      by (rule new)
    show "mset ys = mset xs"
      by (rule ys(2))
    show "\<forall>k. sortBy = Some k \<and> k \<notin> {''date-desc'', ''date-asc'', ''name-asc'', ''name-desc''}
            \<longrightarrow> ys = xs"
      by (rule ys(3))
  qed
qed

theorem sortScripts_frame_witness:
  "readArray [[exampleStored ''b'' 2, exampleStored ''a'' 5]] 0
     = Some [exampleStored ''b'' 2, exampleStored ''a'' 5] \<and>
   (\<exists>sorted store' ys.
      sortScripts (\<lambda>a b. 0) [[exampleStored ''b'' 2, exampleStored ''a'' 5]] 0 (Some ''date-desc'')
        = Inr (sorted, store') \<and>
      sorted \<noteq> 0 \<and>
      readArray [[exampleStored ''b'' 2, exampleStored ''a'' 5]] sorted = None \<and>
      readArray store' 0 = Some [exampleStored ''b'' 2, exampleStored ''a'' 5] \<and>
      (\<forall>r. r \<noteq> sorted \<longrightarrow>
         readArray store' r = readArray [[exampleStored ''b'' 2, exampleStored ''a'' 5]] r) \<and>
      readArray store' sorted = Some ys \<and>
      mset ys = mset [exampleStored ''b'' 2, exampleStored ''a'' 5] \<and>
      (\<forall>k. Some ''date-desc'' = Some k \<and>
           k \<notin> {''date-desc'', ''date-asc'', ''name-asc'', ''name-desc''} \<longrightarrow>
           ys = [exampleStored ''b'' 2, exampleStored ''a'' 5]))"
proof -
  have h: "readArray [[exampleStored ''b'' 2, exampleStored ''a'' 5]] 0
             = Some [exampleStored ''b'' 2, exampleStored ''a'' 5]"
    by (simp add: readArray_def)
  show ?thesis
    by (rule conjI [OF h sortScripts_frame [OF h]])
qed

lemma sortScripts_example:
  "sortScripts (\<lambda>a b. 0) [[exampleStored ''b'' 2, exampleStored ''a'' 5]] 0 None
     = Inr (1, [[exampleStored ''b'' 2, exampleStored ''a'' 5],
                [exampleStored ''a'' 5, exampleStored ''b'' 2]])"
  by (simp add: sortScripts_def readArray_def newArray_def sortInPlace_def jsSort_def
      exampleStored_def)

section \<open>Properties of the local storage helpers\<close>

lemma getItem_setItem:
  "setItem ls key s = Inr ls' \<Longrightarrow> getItem ls' key = Some s"
  by (auto simp: setItem_def getItem_def Let_def update_conv' split: if_splits)

text \<open>
  Claim C10, as stated: for every key and every value that survives JSON serialization,
  \<open>storage.get(k)\<close> after \<open>storage.set(k, v)\<close> returns \<open>v\<close>. When \<open>setItem\<close> raises (here
  a storage with no room left), \<open>set\<close> returns \<open>false\<close> from its \<open>catch\<close> block and stores
  nothing: \<open>get\<close> then returns \<open>null\<close> for the value \<open>true\<close>, which does survive
  serialization.
\<close>

theorem storage_roundtrip_counterexample:
  "storageGet literalJSON (snd (storageSet literalJSON \<lparr>items = [], quota = 0\<rparr> ''k'' LTrue)) ''k''
     = LNull \<and>
   stringify literalJSON LTrue = JsonText ''true'' \<and> parse literalJSON ''true'' = Some LTrue"
  by (simp add: storageGet_def storageSet_def setItem_def getItem_def usedSize_def literalJSON_def)

text \<open>
  Claim C10, amended: for every key \<open>k\<close> and every value \<open>v\<close> that survives JSON
  serialization (\<open>JSON.stringify\<close> gives a text that \<open>JSON.parse\<close> reads back as \<open>v\<close>; the
  empty text is not valid JSON), whenever \<open>storage.set(k, v)\<close> returns \<open>true\<close>,
  \<open>storage.get(k)\<close> on the resulting storage returns \<open>v\<close>; and \<open>storage.get\<close> on an absent
  key returns \<open>null\<close>.
\<close>

theorem storage_roundtrip:
  "(parse JSON [] = None \<longrightarrow> stringify JSON v = JsonText s \<longrightarrow> parse JSON s = Some v \<longrightarrow>
      storageSet JSON ls key v = (True, ls') \<longrightarrow> storageGet JSON ls' key = v) \<and>
   (getItem ls absent = None \<longrightarrow> storageGet JSON ls absent = null JSON)"
proof (intro conjI impI)
  assume e: "parse JSON [] = None" and t: "stringify JSON v = JsonText s"
    and p: "parse JSON s = Some v" and st: "storageSet JSON ls key v = (True, ls')"
  from st t have "setItem ls key s = Inr ls'"
    by (auto simp: storageSet_def split: sum.splits)
  then have g: "getItem ls' key = Some s"
    by (rule getItem_setItem)
  from e p have "s \<noteq> []"
    by auto
  with g p show "storageGet JSON ls' key = v"
    by (simp add: storageGet_def)
next
  assume "getItem ls absent = None"
  then show "storageGet JSON ls absent = null JSON"
    by (simp add: storageGet_def)
qed

theorem storage_roundtrip_witness:
  "parse literalJSON [] = None \<and> stringify literalJSON LTrue = JsonText ''true'' \<and>
   parse literalJSON ''true'' = Some LTrue \<and>
   storageSet literalJSON \<lparr>items = [(''k'', ''false'')], quota = 10\<rparr> ''k'' LTrue
     = (True, \<lparr>items = [(''k'', ''true'')], quota = 10\<rparr>) \<and>
   storageGet literalJSON \<lparr>items = [(''k'', ''true'')], quota = 10\<rparr> ''k'' = LTrue \<and>
   getItem \<lparr>items = [(''k'', ''false'')], quota = 10\<rparr> ''j'' = None \<and>
   storageGet literalJSON \<lparr>items = [(''k'', ''false'')], quota = 10\<rparr> ''j'' = null literalJSON"
  using storage_roundtrip [where JSON = literalJSON and v = LTrue and s = "''true''"
      and ls = "\<lparr>items = [(''k'', ''false'')], quota = 10\<rparr>" and key = "''k''"
      and ls' = "\<lparr>items = [(''k'', ''true'')], quota = 10\<rparr>" and absent = "''j''"]
  by (simp add: storageSet_def setItem_def getItem_def usedSize_def literalJSON_def)

section \<open>Properties of the script builder\<close>












lemma validateConfig_valid:
  "valid (validateConfig h c) \<longleftrightarrow>
     scriptName c \<noteq> [] \<and> targetSelector c \<noteq> [] \<and> actionType c \<noteq> [] \<and>
     selectorParses h (targetSelector c)"
  by (auto simp: validateConfig_def Let_def)

lemma generateAndSave_code:
  "generateAndSave h this c db = (Inr r, db') \<Longrightarrow> resultCode r = generateScript h this c"
  by (auto simp: generateAndSave_def Let_def split: if_splits sum.splits prod.splits)

lemma generateScriptId_distinct:
  "distinct (map generateScriptId
     ['''', ''modify'', ''add'', ''remove'', ''style'', ''event'', ''widget'', ''form'', ''custom''])"
  by (simp add: generateScriptId_def toUpperChar_def)

lemma generateScriptId_example:
  "generateScriptId ''modify'' = ''gcpScriptModifyActive'' \<and>
   generateScriptId ''Modify'' = ''gcpScriptModifyActive'' \<and>
   generateScriptId '''' = ''gcpScriptGeneralActive''"
  by (simp add: generateScriptId_def toUpperChar_def)

lemma generateActionCode_custom_empty:
  "generateActionCode ''custom'' [(''customCode'', [])] =
     newline @ ''        // Custom JavaScript code'' @ newline @ ''        // Your custom code here''"
  by (simp add: generateActionCode_def orElse_def)

text \<open>
  Claim C4, as stated: generation raises when an action-specific required parameter is
  absent, as for the custom action with empty code. \<open>validateConfig\<close> looks at the script
  name, the target selector and the action type only: the configuration below, a custom
  action whose code is empty, is valid, a script is generated for it and a record is
  saved.
\<close>

theorem generateAndSave_counterexample:
  "actionType customConfig = ''custom'' \<and>
   map_of (actionOptions customConfig) ''customCode'' = Some [] \<and>
   fst (generateAndSave exampleHost newScriptBuilder customConfig []) =
     Inr \<lparr>resultCode = generateScript exampleHost newScriptBuilder customConfig,
          resultScript = hd (snd (generateAndSave exampleHost newScriptBuilder customConfig []))\<rparr> \<and>
   length (snd (generateAndSave exampleHost newScriptBuilder customConfig [])) = 1"
  by (simp add: generateAndSave_def validateConfig_def saveScript_def Let_def exampleHost_def
      customConfig_def)

text \<open>
  Claim C4, amended: for every configuration in which the script name, the target
  selector or the action type is missing (empty), or whose target selector the browser's
  selector parser rejects, \<open>generateAndSave\<close> raises an error whose message is the list of
  the violation messages joined with a comma and a space, each violated requirement
  with its message, and it leaves the history store as it was: no script text, no saved
  record.
\<close>

theorem generateAndSave_invalid:
  assumes "scriptName c = [] \<or> targetSelector c = [] \<or> actionType c = [] \<or>
           \<not> selectorParses h (targetSelector c)"
  shows "generateAndSave h this c db
           = (Inl (Error (jsJoin '', '' (errors (validateConfig h c)))), db) \<and>
         errors (validateConfig h c) \<noteq> [] \<and>
         (scriptName c = [] \<longrightarrow> ''Script name is required'' \<in> set (errors (validateConfig h c))) \<and>
         (targetSelector c = [] \<longrightarrow>
            ''Target selector is required'' \<in> set (errors (validateConfig h c))) \<and>
         (actionType c = [] \<longrightarrow> ''Action type is required'' \<in> set (errors (validateConfig h c))) \<and>
         (\<not> selectorParses h (targetSelector c) \<longrightarrow>
            ''Invalid CSS selector'' \<in> set (errors (validateConfig h c)))"
proof -
  from assms have nv: "\<not> valid (validateConfig h c)"
    by (auto simp: validateConfig_valid)
  then have "generateAndSave h this c db
               = (Inl (Error (jsJoin '', '' (errors (validateConfig h c)))), db)"
    by (simp add: generateAndSave_def Let_def)
  moreover from nv have "errors (validateConfig h c) \<noteq> []"
    by (simp add: validateConfig_def Let_def)
  moreover have
    "(scriptName c = [] \<longrightarrow> ''Script name is required'' \<in> set (errors (validateConfig h c))) \<and>
     (targetSelector c = [] \<longrightarrow>
        ''Target selector is required'' \<in> set (errors (validateConfig h c))) \<and>
     (actionType c = [] \<longrightarrow> ''Action type is required'' \<in> set (errors (validateConfig h c))) \<and>
     (\<not> selectorParses h (targetSelector c) \<longrightarrow>
        ''Invalid CSS selector'' \<in> set (errors (validateConfig h c)))"
    by (simp add: validateConfig_def Let_def)
  ultimately show ?thesis
    by blast
qed

theorem generateAndSave_invalid_witness:
  "generateAndSave exampleHost newScriptBuilder
     (exampleConfig\<lparr>scriptName := [], targetSelector := []\<rparr>) [exampleStored ''a'' 1]
   = (Inl (Error ''Script name is required, Target selector is required, Invalid CSS selector''),
      [exampleStored ''a'' 1])"
proof -
  have h: "scriptName (exampleConfig\<lparr>scriptName := [], targetSelector := []\<rparr>) = [] \<or>
           targetSelector (exampleConfig\<lparr>scriptName := [], targetSelector := []\<rparr>) = [] \<or>
           actionType (exampleConfig\<lparr>scriptName := [], targetSelector := []\<rparr>) = [] \<or>
           \<not> selectorParses exampleHost
               (targetSelector (exampleConfig\<lparr>scriptName := [], targetSelector := []\<rparr>))"
    by simp
  show ?thesis
    using generateAndSave_invalid [OF h, of newScriptBuilder "[exampleStored ''a'' 1]"]
    by (simp add: validateConfig_def exampleHost_def exampleConfig_def)
qed

text \<open>
  Claim C5. \<open>generateScript\<close> reads its configuration, the builder's templates and, of
  the browser, \<open>JSON.stringify\<close> only: there is no timestamp and no dealer or session id
  in what it writes. With configurations that agree on the fields it reads (all but
  \<open>multipleElements\<close>), two calls give the same text, byte for byte, whatever the clock
  and the random source are; and two calls of \<open>generateAndSave\<close> on one configuration, at
  different times and on different history stores, return the same code (the clock and
  the random text only reach the id and the timestamp of the saved record).
\<close>

theorem generateScript_deterministic:
  "(stringifyArray h' = stringifyArray h \<and>
    scriptName c' = scriptName c \<and> scriptDescription c' = scriptDescription c \<and>
    targetSelector c' = targetSelector c \<and> selectorType c' = selectorType c \<and>
    fallbackSelectors c' = fallbackSelectors c \<and> waitForElement c' = waitForElement c \<and>
    actionType c' = actionType c \<and> actionOptions c' = actionOptions c \<and>
    features c' = features c \<longrightarrow>
    generateScript h' this c' = generateScript h this c) \<and>
   (stringifyArray h1 = stringifyArray h2 \<longrightarrow>
    generateAndSave h1 this c db1 = (Inr r1, db1') \<longrightarrow>
    generateAndSave h2 this c db2 = (Inr r2, db2') \<longrightarrow>
    resultCode r1 = resultCode r2)"
proof (intro conjI impI)
  assume "stringifyArray h' = stringifyArray h \<and>
    scriptName c' = scriptName c \<and> scriptDescription c' = scriptDescription c \<and>
    targetSelector c' = targetSelector c \<and> selectorType c' = selectorType c \<and>
    fallbackSelectors c' = fallbackSelectors c \<and> waitForElement c' = waitForElement c \<and>
    actionType c' = actionType c \<and> actionOptions c' = actionOptions c \<and>
    features c' = features c"
  then show "generateScript h' this c' = generateScript h this c"
    unfolding generateScript_def scriptArray_def selectionLines_def executionLines_def
    by (elim conjE) (simp only:)
next
  assume s: "stringifyArray h1 = stringifyArray h2"
    and "generateAndSave h1 this c db1 = (Inr r1, db1')"
    and "generateAndSave h2 this c db2 = (Inr r2, db2')"
  then have "resultCode r1 = generateScript h1 this c" and "resultCode r2 = generateScript h2 this c"
    by (simp_all add: generateAndSave_code)
  moreover have "generateScript h1 this c = generateScript h2 this c"
    unfolding generateScript_def scriptArray_def selectionLines_def executionLines_def
    by (simp only: s)
  ultimately show "resultCode r1 = resultCode r2"
    by simp
qed

theorem generateScript_deterministic_witness:
  "generateScript (exampleHost\<lparr>now := 1700000005000, randomText := ''zzzzzzzzz''\<rparr>)
       newScriptBuilder (exampleConfig\<lparr>multipleElements := True\<rparr>)
     = generateScript exampleHost newScriptBuilder exampleConfig \<and>
   resultCode (projr (fst (generateAndSave exampleHost newScriptBuilder exampleConfig []))) =
   resultCode (projr (fst (generateAndSave
     (exampleHost\<lparr>now := 1700000005000, randomText := ''zzzzzzzzz''\<rparr>) newScriptBuilder exampleConfig [])))"
proof -
  let ?h2 = "exampleHost\<lparr>now := 1700000005000, randomText := ''zzzzzzzzz''\<rparr>"
  let ?c' = "exampleConfig\<lparr>multipleElements := True\<rparr>"
  have a: "generateAndSave exampleHost newScriptBuilder exampleConfig [] =
      (Inr (projr (fst (generateAndSave exampleHost newScriptBuilder exampleConfig []))),
       snd (generateAndSave exampleHost newScriptBuilder exampleConfig []))"
    by (simp add: generateAndSave_def validateConfig_def saveScript_def Let_def exampleHost_def
        exampleConfig_def)
  have b: "generateAndSave ?h2 newScriptBuilder exampleConfig [] =
      (Inr (projr (fst (generateAndSave ?h2 newScriptBuilder exampleConfig []))),
       snd (generateAndSave ?h2 newScriptBuilder exampleConfig []))"
    by (simp add: generateAndSave_def validateConfig_def saveScript_def Let_def exampleHost_def
        exampleConfig_def)
  have s: "stringifyArray ?h2 = stringifyArray exampleHost"
    by simp
  have c: "stringifyArray ?h2 = stringifyArray exampleHost \<and>
    scriptName ?c' = scriptName exampleConfig \<and>
    scriptDescription ?c' = scriptDescription exampleConfig \<and>
    targetSelector ?c' = targetSelector exampleConfig \<and>
    selectorType ?c' = selectorType exampleConfig \<and>
    fallbackSelectors ?c' = fallbackSelectors exampleConfig \<and>
    waitForElement ?c' = waitForElement exampleConfig \<and>
    actionType ?c' = actionType exampleConfig \<and>
    actionOptions ?c' = actionOptions exampleConfig \<and>
    features ?c' = features exampleConfig"
    by simp
  from generateScript_deterministic
    [where h' = ?h2 and h = exampleHost and c' = ?c' and c = exampleConfig
       and this = newScriptBuilder and ?h1.0 = exampleHost and ?db1.0 = "[]"
       and ?h2.0 = ?h2 and ?db2.0 = "[]"
       and ?r1.0 = "projr (fst (generateAndSave exampleHost newScriptBuilder exampleConfig []))"
       and ?db1' = "snd (generateAndSave exampleHost newScriptBuilder exampleConfig [])"
       and ?r2.0 = "projr (fst (generateAndSave ?h2 newScriptBuilder exampleConfig []))"
       and ?db2' = "snd (generateAndSave ?h2 newScriptBuilder exampleConfig [])"]
  show ?thesis
    using a b c s [symmetric] by blast
qed




section \<open>Properties of the editor form\<close>

text \<open>
  No step of \<open>restoreScriptToEditor\<close> touches the tab buttons, so the selector kind that
  \<open>gatherConfiguration\<close> reads afterwards is the one of the tab that was active before.
\<close>

lemma activeTab_setInputValue: "activeTab (setInputValue e i v) = activeTab e"
  by (simp add: setInputValue_def split: option.splits)

lemma activeTab_setCheckboxValue: "activeTab (setCheckboxValue e i b) = activeTab e"
  by (simp add: setCheckboxValue_def split: option.splits)

lemma activeTab_updateActionOptions: "activeTab (updateActionOptions actionInputs e) = activeTab e"
  by (simp add: updateActionOptions_def Let_def)

lemma activeTab_foldl_inputs:
  "activeTab (foldl (\<lambda>ed (k, v). setInputValue ed k v) e kvs) = activeTab e"
  by (induction kvs arbitrary: e) (auto simp: activeTab_setInputValue)

lemma activeTab_foldl_checkboxes:
  "activeTab (foldl (\<lambda>ed (f, b). setCheckboxValue ed f b) e fs) = activeTab e"
  by (induction fs arbitrary: e) (auto simp: activeTab_setCheckboxValue)

lemma activeTab_restoreScriptToEditor:
  "activeTab (restoreScriptToEditor actionInputs e saved) = activeTab e"
  by (cases saved)
    (simp_all add: restoreScriptToEditor_def Let_def activeTab_setInputValue
      activeTab_setCheckboxValue activeTab_updateActionOptions activeTab_foldl_inputs
      activeTab_foldl_checkboxes)

lemma selectorType_gatherConfiguration:
  "selectorType (gatherConfiguration e) = (case activeTab e of None \<Rightarrow> ''css'' | Some tab \<Rightarrow> tab)"
  by (simp add: gatherConfiguration_def Let_def split: option.splits)

lemma selectorType_restored:
  "selectorType (gatherConfiguration (restoreScriptToEditor actionInputs e saved))
     = selectorType (gatherConfiguration e)"
  by (simp add: selectorType_gatherConfiguration activeTab_restoreScriptToEditor)

text \<open>
  Claim C7. Saving a configuration and restoring it into the editor is claimed to give
  back an equivalent configuration, with the same selector kind. For a saved
  configuration of kind \<open>xpath\<close>, restored into the editor in its initial state (the CSS
  tab active), \<open>gatherConfiguration\<close> returns the kind \<open>css\<close>: the XPath expression has
  been written into the CSS input and the tab has not been switched. Every other field
  comes back.
\<close>

theorem restore_loses_selector_kind:
  "selectorType xpathConfig = ''xpath'' \<and>
   gatherConfiguration (restoreScriptToEditor exampleActionInputs initialEditor (Some xpathConfig))
     = xpathConfig\<lparr>selectorType := ''css''\<rparr>"
  by code_simp

end
